theory Spec2Isabelle
  imports Main
begin

section \<open>Errors\<close>

text \<open>
  Go's \<open>error\<close> values, as far as the upgrade coordinator tells them apart: an API status
  error of the cluster client (with its reason), a plain message (\<open>fmt.Errorf\<close>), and an
  error wrapped with a context message by \<open>errors.Wrap\<close>. A nil error is \<open>None\<close>.
\<close>

datatype status_reason = StatusReasonNotFound | StatusReasonAlreadyExists | StatusReasonOther

datatype error =
    StatusError status_reason string
  | ErrorString string
  | WithMessage error string

text \<open>\<open>errors.Wrap(err, msg)\<close> and \<open>errors.Wrapf\<close>: nil stays nil.\<close>

fun Wrap :: "error option \<Rightarrow> string \<Rightarrow> error option" where
  "Wrap None message = None"
| "Wrap (Some err) message = Some (WithMessage err message)"

text \<open>\<open>apierrors.IsNotFound\<close> and \<open>apierrors.IsAlreadyExists\<close> read the reason of a status error.\<close>

fun IsNotFound :: "error \<Rightarrow> bool" where
  "IsNotFound (StatusError r m) = (r = StatusReasonNotFound)"
| "IsNotFound (ErrorString m) = False"
| "IsNotFound (WithMessage e m) = False"

fun IsAlreadyExists :: "error \<Rightarrow> bool" where
  "IsAlreadyExists (StatusError r m) = (r = StatusReasonAlreadyExists)"
| "IsAlreadyExists (ErrorString m) = False"
| "IsAlreadyExists (WithMessage e m) = False"

text \<open>The text of an error, as \<open>%v\<close> prints it.\<close>

fun Error :: "error \<Rightarrow> string" where
  "Error (StatusError r m) = m"
| "Error (ErrorString m) = m"
| "Error (WithMessage e m) = m @ '': '' @ Error e"

section \<open>The cluster, its calls and the trace of a run\<close>

text \<open>A \<open>longhorn.Setting\<close>: the name of its object metadata and its value.\<close>

record setting =
  Name :: string
  Value :: string

text \<open>
  The constants of package \<open>types\<close> and of \<open>corev1\<close> that \<open>upgrade.go\<close> reads. Their
  declarations are outside the source files at hand, so they are a parameter of every
  function below.
\<close>

record constants =
  EnvPodNamespace :: string
  NamespaceDefault :: string
  SettingNameCRDAPIVersion :: string
  CRDAPIVersionV1beta1 :: string
  CRDAPIVersionV1beta2 :: string
  CurrentCRDAPIVersion :: string

text \<open>
  Every call that leaves \<open>upgrade.go\<close>, with the arguments that matter (the namespace, the
  setting written). Client handles and the REST configuration are left out: they stand
  for the cluster itself.
\<close>

datatype call =
    BuildConfigFromFlags string
  | clientset_NewForConfig
  | lhclientset_NewForConfig
  | AddToScheme
  | v070to080_UpgradeLocalNode
  | leaderelection_RunOrDie string string string
  | Settings_Get string string
  | Settings_Create string setting
  | Settings_Update string setting
  | v1beta1_CanUpgrade string
  | v1beta1_UpgradeCRFromV1beta1ToV1beta2 string
  | v070to080_UpgradeCRs string
  | v100to101_UpgradeCRs string
  | v102to110_UpgradeCRs string
  | v110to111_UpgradeCRs string
  | v110to120_UpgradeCRs string
  | v111to120_UpgradeCRs string
  | v120to121_UpgradeCRs string
  | v122to123_UpgradeCRs string
  | v100to101_UpgradeInstanceManagerPods string
  | v102to110_UpgradePods string
  | v110to111_UpgradePods string
  | v110to111_UpgradeServices string
  | v110to111_UpgradeDeploymentAndDaemonSet string

datatype level = InfoLevel | WarnLevel | ErrorLevel

text \<open>
  A run leaves a trace: each outgoing call with the error it returned (\<open>None\<close> for nil), and
  each log line, in the order they happened.
\<close>

datatype 'c event = Call 'c "error option" | Log level string

record ('s, 'c) world =
  cluster :: 's
  trace :: "'c event list"

definition init :: "'s \<Rightarrow> ('s, 'c) world" where
  "init s = \<lparr>cluster = s, trace = []\<rparr>"

text \<open>
  What the called code does is not in \<open>upgrade.go\<close>: it is a parameter. A call turns the
  cluster state into a result and a new state. Reading a setting is a read of the cluster
  API and changes nothing. The leader election shows the candidate the holders of the
  lease it observes while it contends, and either never gives it the lease (\<open>None\<close>) or
  gives it, with the lease written to the cluster.
\<close>

record 's externals =
  invoke :: "call \<Rightarrow> 's \<Rightarrow> error option \<times> 's"
  get_setting :: "string \<Rightarrow> string \<Rightarrow> 's \<Rightarrow> error + setting"
  can_upgrade :: "string \<Rightarrow> 's \<Rightarrow> (error + bool) \<times> 's"
  getenv :: "string \<Rightarrow> string"
  acquire_lease :: "string \<Rightarrow> string \<Rightarrow> string \<Rightarrow> 's \<Rightarrow> string list \<times> 's option"
  release_lease :: "string \<Rightarrow> string \<Rightarrow> string \<Rightarrow> 's \<Rightarrow> 's"

definition logrus :: "level \<Rightarrow> string \<Rightarrow> ('s, 'c) world \<Rightarrow> ('s, 'c) world" where
  "logrus l msg w = w\<lparr>trace := trace w @ [Log l msg]\<rparr>"

definition perform :: "('c \<Rightarrow> 's \<Rightarrow> error option \<times> 's) \<Rightarrow> 'c \<Rightarrow> ('s, 'c) world
    \<Rightarrow> error option \<times> ('s, 'c) world" where
  "perform run c w =
     (case run c (cluster w) of
        (r, s') \<Rightarrow> (r, \<lparr>cluster = s', trace = trace w @ [Call c r]\<rparr>))"

definition exec :: "'s externals \<Rightarrow> call \<Rightarrow> ('s, call) world \<Rightarrow> error option \<times> ('s, call) world" where
  "exec ext c w = perform (invoke ext) c w"

definition err_of :: "error + 'a \<Rightarrow> error option" where
  "err_of r = (case r of Inl e \<Rightarrow> Some e | Inr v \<Rightarrow> None)"

definition exec_Get :: "'s externals \<Rightarrow> string \<Rightarrow> string \<Rightarrow> ('s, call) world
    \<Rightarrow> (error + setting) \<times> ('s, call) world" where
  "exec_Get ext namespace name w =
     (let r = get_setting ext namespace name (cluster w)
      in (r, w\<lparr>trace := trace w @ [Call (Settings_Get namespace name) (err_of r)]\<rparr>))"

definition exec_CanUpgrade :: "'s externals \<Rightarrow> string \<Rightarrow> ('s, call) world
    \<Rightarrow> (error + bool) \<times> ('s, call) world" where
  "exec_CanUpgrade ext namespace w =
     (case can_upgrade ext namespace (cluster w) of
        (r, s') \<Rightarrow> (r, \<lparr>cluster = s', trace = trace w @ [Call (v1beta1_CanUpgrade namespace) (err_of r)]\<rparr>))"

section \<open>upgrade.go: resolving the API version\<close>

text \<open>
  \<open>doAPIVersionUpgrade\<close>, lines 160 to 207: from the guard on the marker value to the end,
  with the setting and the value read before. The deferred wrap is applied by
  \<open>doAPIVersionUpgrade\<close> below.
\<close>

definition doAPIVersionUpgrade_switch :: "constants \<Rightarrow> 's externals \<Rightarrow> string \<Rightarrow> setting \<Rightarrow> string
    \<Rightarrow> ('s, call) world \<Rightarrow> error option \<times> ('s, call) world" where
  "doAPIVersionUpgrade_switch types ext namespace crdAPIVersionSetting crdAPIVersion w =
     (if crdAPIVersion \<noteq> '''' \<and>
         crdAPIVersion \<noteq> CRDAPIVersionV1beta1 types \<and>
         crdAPIVersion \<noteq> CRDAPIVersionV1beta2 types
      then (Some (ErrorString (''unrecognized CRD API version '' @ crdAPIVersion)), w)
      else if crdAPIVersion = CurrentCRDAPIVersion types
      then (None, logrus InfoLevel ''No API version upgrade is needed'' w)
      else if crdAPIVersion = ''''
      then
        (case exec_CanUpgrade ext namespace w of
           (Inl err, w1) \<Rightarrow> (Some err, w1)
         | (Inr upgradable, w1) \<Rightarrow>
             if upgradable then
               (case exec ext (Settings_Create namespace
                        \<lparr>Name = SettingNameCRDAPIVersion types, Value = CurrentCRDAPIVersion types\<rparr>) w1 of
                  (err, w2) \<Rightarrow>
                    if (case err of None \<Rightarrow> False | Some e \<Rightarrow> \<not> IsAlreadyExists e)
                    then (Wrap err ''cannot create CRDAPIVersionSetting'', w2)
                    else (None, logrus InfoLevel (''New '' @ CurrentCRDAPIVersion types @ '' installation'') w2))
             else (None, w1))
      else if crdAPIVersion = CRDAPIVersionV1beta1 types
      then
        (let w1 = logrus InfoLevel (''Upgrading from '' @ CRDAPIVersionV1beta1 types @ '' to ''
                      @ CurrentCRDAPIVersion types) w
         in case exec ext (v1beta1_UpgradeCRFromV1beta1ToV1beta2 namespace) w1 of
              (Some err, w2) \<Rightarrow> (Some err, w2)
            | (None, w2) \<Rightarrow>
                (let crdAPIVersionSetting' = crdAPIVersionSetting\<lparr>Value := CRDAPIVersionV1beta2 types\<rparr>
                 in case exec ext (Settings_Update namespace crdAPIVersionSetting') w2 of
                      (Some err, w3) \<Rightarrow>
                        (Wrap (Some err) (''cannot finish CRD API upgrade by setting the CRDAPIVersionSetting to ''
                            @ CurrentCRDAPIVersion types), w3)
                    | (None, w3) \<Rightarrow>
                        (None, logrus InfoLevel (''CRD has been upgraded to '' @ Value crdAPIVersionSetting') w3)))
      else (Some (ErrorString (''don't support upgrade from '' @ crdAPIVersion @ '' to ''
                  @ CurrentCRDAPIVersion types)), w))"

text \<open>
  \<open>doAPIVersionUpgrade\<close>, lines 144 to 158 and the deferred wrap of line 146. When the read
  fails the client hands back an empty setting, and the value stays empty.
\<close>

definition doAPIVersionUpgrade :: "constants \<Rightarrow> 's externals \<Rightarrow> string
    \<Rightarrow> ('s, call) world \<Rightarrow> error option \<times> ('s, call) world" where
  "doAPIVersionUpgrade types ext namespace w =
     (case (case exec_Get ext namespace (SettingNameCRDAPIVersion types) w of
              (Inl err, w1) \<Rightarrow>
                if \<not> IsNotFound err then (Some err, w1)
                else doAPIVersionUpgrade_switch types ext namespace \<lparr>Name = '''', Value = ''''\<rparr> '''' w1
            | (Inr crdAPIVersionSetting, w1) \<Rightarrow>
                doAPIVersionUpgrade_switch types ext namespace crdAPIVersionSetting
                  (Value crdAPIVersionSetting) w1) of
        (err, w') \<Rightarrow> (Wrap err ''upgrade API version failed'', w'))"

section \<open>upgrade.go: the phases after the version resolution\<close>

text \<open>
  The two idioms every phase is written in: \<open>if err := f(); err != nil { return err }\<close>
  followed by the rest, and a deferred \<open>errors.Wrap\<close> of the named result.
\<close>

definition andThen :: "('w \<Rightarrow> error option \<times> 'w) \<Rightarrow> ('w \<Rightarrow> error option \<times> 'w)
    \<Rightarrow> 'w \<Rightarrow> error option \<times> 'w" where
  "andThen f rest w = (case f w of (Some err, w') \<Rightarrow> (Some err, w') | (None, w') \<Rightarrow> rest w')"

definition return_nil :: "'w \<Rightarrow> error option \<times> 'w" where
  "return_nil w = (None, w)"

definition deferred_Wrap :: "string \<Rightarrow> ('w \<Rightarrow> error option \<times> 'w) \<Rightarrow> 'w \<Rightarrow> error option \<times> 'w" where
  "deferred_Wrap message body w = (case body w of (err, w') \<Rightarrow> (Wrap err message, w'))"

definition upgradeLocalNode :: "'s externals \<Rightarrow> ('s, call) world \<Rightarrow> error option \<times> ('s, call) world" where
  "upgradeLocalNode ext =
     deferred_Wrap ''upgrade local node failed''
       (andThen (exec ext v070to080_UpgradeLocalNode) return_nil)"

definition doCRUpgrade :: "'s externals \<Rightarrow> string \<Rightarrow> ('s, call) world \<Rightarrow> error option \<times> ('s, call) world" where
  "doCRUpgrade ext namespace =
     deferred_Wrap ''upgrade CRD failed''
       (andThen (exec ext (v070to080_UpgradeCRs namespace))
       (andThen (exec ext (v100to101_UpgradeCRs namespace))
       (andThen (exec ext (v102to110_UpgradeCRs namespace))
       (andThen (exec ext (v110to111_UpgradeCRs namespace))
       (andThen (exec ext (v110to120_UpgradeCRs namespace))
       (andThen (exec ext (v111to120_UpgradeCRs namespace))
       (andThen (exec ext (v120to121_UpgradeCRs namespace))
       (andThen (exec ext (v122to123_UpgradeCRs namespace))
        return_nil))))))))"

definition doPodsUpgrade :: "'s externals \<Rightarrow> string \<Rightarrow> ('s, call) world \<Rightarrow> error option \<times> ('s, call) world" where
  "doPodsUpgrade ext namespace =
     deferred_Wrap ''upgrade Pods failed''
       (andThen (exec ext (v100to101_UpgradeInstanceManagerPods namespace))
       (andThen (exec ext (v102to110_UpgradePods namespace))
       (andThen (exec ext (v110to111_UpgradePods namespace))
        return_nil)))"

definition doServicesUpgrade :: "'s externals \<Rightarrow> string \<Rightarrow> ('s, call) world \<Rightarrow> error option \<times> ('s, call) world" where
  "doServicesUpgrade ext namespace =
     deferred_Wrap ''doServicesUpgrade failed''
       (andThen (exec ext (v110to111_UpgradeServices namespace)) return_nil)"

definition doDeploymentAndDaemonSetUpgrade :: "'s externals \<Rightarrow> string
    \<Rightarrow> ('s, call) world \<Rightarrow> error option \<times> ('s, call) world" where
  "doDeploymentAndDaemonSetUpgrade ext namespace =
     deferred_Wrap ''doDeploymentAndDaemonSetUpgrade failed''
       (andThen (exec ext (v110to111_UpgradeDeploymentAndDaemonSet namespace)) return_nil)"

section \<open>upgrade.go: the leader's callbacks and the election\<close>

text \<open>
  The callback \<open>OnStartedLeading\<close> (lines 103 to 128). It assigns the variable \<open>err\<close> of the
  enclosing \<open>upgrade\<close>; here it returns that value. The deferred function logs the outcome.
\<close>

definition OnStartedLeading :: "constants \<Rightarrow> 's externals \<Rightarrow> string
    \<Rightarrow> ('s, call) world \<Rightarrow> error option \<times> ('s, call) world" where
  "OnStartedLeading types ext namespace w =
     (case andThen (doAPIVersionUpgrade types ext namespace)
          (andThen (doCRUpgrade ext namespace)
          (andThen (doPodsUpgrade ext namespace)
          (andThen (doServicesUpgrade ext namespace)
                   (doDeploymentAndDaemonSetUpgrade ext namespace))))
          (logrus InfoLevel ''Start upgrading'' w) of
        (Some err, w') \<Rightarrow> (Some err, logrus ErrorLevel (''Upgrade failed: '' @ Error err) w')
      | (None, w') \<Rightarrow> (None, logrus InfoLevel ''Finish upgrading'' w'))"

definition OnStoppedLeading :: "string \<Rightarrow> ('s, 'c) world \<Rightarrow> ('s, 'c) world" where
  "OnStoppedLeading currentNodeID w = logrus InfoLevel (''Upgrade leader lost: '' @ currentNodeID) w"

definition OnNewLeader :: "string \<Rightarrow> string \<Rightarrow> ('s, 'c) world \<Rightarrow> ('s, 'c) world" where
  "OnNewLeader currentNodeID identity w =
     (if identity = currentNodeID then w
      else logrus InfoLevel (''New upgrade leader elected: '' @ identity) w)"

definition LeaseLockName :: string where
  "LeaseLockName = ''longhorn-manager-upgrade-lock''"

text \<open>A call either returns a value or blocks for ever.\<close>

datatype 'a outcome = Returns 'a | Blocks

text \<open>
  Modelled from the spec: \<open>leaderelection.RunOrDie\<close> is library code; section 4.1 of the
  specification gives its contract. The candidate blocks until it holds the lease, a
  candidate that never wins stays blocked; on acquisition the gate calls \<open>OnStartedLeading\<close>
  once, synchronously; the callback cancels the context when it ends, on which the gate
  releases the lease, calls \<open>OnStoppedLeading\<close> and returns. \<open>OnNewLeader\<close> is called for
  each holder the candidate observes, whether it wins the lease in the end or not. Losing
  the lease while the callback runs is not modelled.
\<close>

definition upgrade :: "constants \<Rightarrow> 's externals \<Rightarrow> string \<Rightarrow> string
    \<Rightarrow> ('s, call) world \<Rightarrow> error option outcome \<times> ('s, call) world" where
  "upgrade types ext currentNodeID namespace w =
     (let w1 = \<lparr>cluster = cluster w,
                trace = trace w @ [Call (leaderelection_RunOrDie LeaseLockName namespace currentNodeID) None]\<rparr>
      in case acquire_lease ext LeaseLockName namespace currentNodeID (cluster w1) of
           (leaders, None) \<Rightarrow> (Blocks, fold (OnNewLeader currentNodeID) leaders w1)
         | (leaders, Some s) \<Rightarrow>
             (case OnStartedLeading types ext namespace
                     (fold (OnNewLeader currentNodeID) leaders \<lparr>cluster = s, trace = trace w1\<rparr>) of
                (err, w2) \<Rightarrow>
                  (Returns err,
                   OnStoppedLeading currentNodeID
                     \<lparr>cluster = release_lease ext LeaseLockName namespace currentNodeID (cluster w2),
                      trace = trace w2\<rparr>)))"

text \<open>\<open>Upgrade\<close> (lines 42 to 78): the bootstrap, the local node step, then the election.\<close>

definition Upgrade :: "constants \<Rightarrow> 's externals \<Rightarrow> string \<Rightarrow> string
    \<Rightarrow> ('s, call) world \<Rightarrow> error option outcome \<times> ('s, call) world" where
  "Upgrade types ext kubeconfigPath currentNodeID w =
     (let (namespace, w0) =
            (if getenv ext (EnvPodNamespace types) = ''''
             then (NamespaceDefault types,
                   logrus WarnLevel (''Cannot detect pod namespace, environment variable ''
                     @ EnvPodNamespace types @ '' is missing, using default namespace'') w)
             else (getenv ext (EnvPodNamespace types), w))
      in case exec ext (BuildConfigFromFlags kubeconfigPath) w0 of
           (Some err, w1) \<Rightarrow> (Returns (Wrap (Some err) ''unable to get client config''), w1)
         | (None, w1) \<Rightarrow>
        (case exec ext clientset_NewForConfig w1 of
           (Some err, w2) \<Rightarrow> (Returns (Wrap (Some err) ''unable to get k8s client''), w2)
         | (None, w2) \<Rightarrow>
        (case exec ext lhclientset_NewForConfig w2 of
           (Some err, w3) \<Rightarrow> (Returns (Wrap (Some err) ''unable to get clientset''), w3)
         | (None, w3) \<Rightarrow>
        (case exec ext AddToScheme w3 of
           (Some err, w4) \<Rightarrow> (Returns (Wrap (Some err) ''unable to create scheme''), w4)
         | (None, w4) \<Rightarrow>
        (case upgradeLocalNode ext w4 of
           (Some err, w5) \<Rightarrow> (Returns (Some err), w5)
         | (None, w5) \<Rightarrow> upgrade types ext currentNodeID namespace w5)))))"

section \<open>csi/deployment.go: the attacher and the provisioner\<close>

text \<open>
  The capability functions bound to a kind of object, and the two helpers of package
  \<open>csi\<close> that take them. The helpers \<open>deploy\<close> and \<open>cleanup\<close> are declared outside
  \<open>deployment.go\<close>: what they do to the cluster is the parameter \<open>run\<close> of the functions
  below. The objects themselves are opaque desired-state values of type \<open>'o\<close>.
\<close>

datatype resource_func =
    serviceCreateFunc | serviceDeleteFunc | serviceGetFunc
  | deploymentCreateFunc | deploymentDeleteFunc | deploymentGetFunc

datatype 'o csi_call =
    deploy 'o string resource_func resource_func resource_func
  | cleanup 'o string resource_func resource_func

record 'o AttacherDeployment =
  service :: 'o
  deployment :: 'o

record 'o ProvisionerDeployment =
  service :: 'o
  deployment :: 'o

definition AttacherDeployment_Deploy :: "('o csi_call \<Rightarrow> 's \<Rightarrow> error option \<times> 's) \<Rightarrow> 'o AttacherDeployment
    \<Rightarrow> ('s, 'o csi_call) world \<Rightarrow> error option \<times> ('s, 'o csi_call) world" where
  "AttacherDeployment_Deploy run a =
     andThen
       (perform run (deploy (AttacherDeployment.service a) ''service''
          serviceCreateFunc serviceDeleteFunc serviceGetFunc))
       (perform run (deploy (AttacherDeployment.deployment a) ''deployment''
          deploymentCreateFunc deploymentDeleteFunc deploymentGetFunc))"

definition ProvisionerDeployment_Deploy :: "('o csi_call \<Rightarrow> 's \<Rightarrow> error option \<times> 's) \<Rightarrow> 'o ProvisionerDeployment
    \<Rightarrow> ('s, 'o csi_call) world \<Rightarrow> error option \<times> ('s, 'o csi_call) world" where
  "ProvisionerDeployment_Deploy run p =
     andThen
       (perform run (deploy (ProvisionerDeployment.service p) ''service''
          serviceCreateFunc serviceDeleteFunc serviceGetFunc))
       (perform run (deploy (ProvisionerDeployment.deployment p) ''deployment''
          deploymentCreateFunc deploymentDeleteFunc deploymentGetFunc))"

text \<open>
  A task handed to \<open>util.RunAsync\<close> in \<open>Cleanup\<close>: it calls \<open>cleanup\<close> and, when that fails,
  logs a warning. \<open>Ready\<close> is the task before its call, \<open>Failing\<close> the task between a failed
  call and its warning, \<open>Done\<close> the finished task.
\<close>

datatype 'o task = Ready "'o csi_call" string | Failing string | Done

fun task_step :: "('o csi_call \<Rightarrow> 's \<Rightarrow> error option \<times> 's) \<Rightarrow> 'o task
    \<Rightarrow> ('s, 'o csi_call) world \<Rightarrow> 'o task \<times> ('s, 'o csi_call) world" where
  "task_step run (Ready c message) w =
     (case perform run c w of
        (None, w') \<Rightarrow> (Done, w')
      | (Some err, w') \<Rightarrow> (Failing (message @ Error err), w'))"
| "task_step run (Failing message) w = (Done, logrus WarnLevel message w)"
| "task_step run Done w = (Done, w)"

definition task_finish :: "('o csi_call \<Rightarrow> 's \<Rightarrow> error option \<times> 's) \<Rightarrow> 'o task
    \<Rightarrow> ('s, 'o csi_call) world \<Rightarrow> ('s, 'o csi_call) world" where
  "task_finish run t w = (case task_step run t w of (t', w') \<Rightarrow> snd (task_step run t' w'))"

text \<open>
  Modelled from the spec: \<open>util.RunAsync\<close> is declared outside the source files; sections 4.5
  and 5 of the specification say that the cleanups run as concurrent tasks with no order
  between them, all complete before \<open>Cleanup\<close> returns. The two tasks are interleaved step
  by step as a schedule says (\<open>True\<close>: the first task moves, \<open>False\<close>: the second; a finished
  task leaves the move to the other). \<open>wg.Wait()\<close> lets both tasks run to their end, so a
  schedule that stops early is completed.
\<close>

fun RunAsync_Wait :: "('o csi_call \<Rightarrow> 's \<Rightarrow> error option \<times> 's) \<Rightarrow> bool list \<Rightarrow> 'o task \<Rightarrow> 'o task
    \<Rightarrow> ('s, 'o csi_call) world \<Rightarrow> ('s, 'o csi_call) world" where
  "RunAsync_Wait run [] t1 t2 w = task_finish run t2 (task_finish run t1 w)"
| "RunAsync_Wait run (first # schedule) t1 t2 w =
     (if (first \<and> t1 \<noteq> Done) \<or> t2 = Done
      then (case task_step run t1 w of (t1', w') \<Rightarrow> RunAsync_Wait run schedule t1' t2 w')
      else (case task_step run t2 w of (t2', w') \<Rightarrow> RunAsync_Wait run schedule t1 t2' w'))"

definition AttacherDeployment_Cleanup :: "('o csi_call \<Rightarrow> 's \<Rightarrow> error option \<times> 's) \<Rightarrow> bool list
    \<Rightarrow> 'o AttacherDeployment \<Rightarrow> ('s, 'o csi_call) world \<Rightarrow> ('s, 'o csi_call) world" where
  "AttacherDeployment_Cleanup run schedule a =
     RunAsync_Wait run schedule
       (Ready (cleanup (AttacherDeployment.service a) ''service'' serviceDeleteFunc serviceGetFunc)
          ''Failed to cleanup service in attacher deployment: '')
       (Ready (cleanup (AttacherDeployment.deployment a) ''deployment'' deploymentDeleteFunc deploymentGetFunc)
          ''Failed to cleanup deployment in attacher deployment: '')"

definition ProvisionerDeployment_Cleanup :: "('o csi_call \<Rightarrow> 's \<Rightarrow> error option \<times> 's) \<Rightarrow> bool list
    \<Rightarrow> 'o ProvisionerDeployment \<Rightarrow> ('s, 'o csi_call) world \<Rightarrow> ('s, 'o csi_call) world" where
  "ProvisionerDeployment_Cleanup run schedule p =
     RunAsync_Wait run schedule
       (Ready (cleanup (ProvisionerDeployment.service p) ''service'' serviceDeleteFunc serviceGetFunc)
          ''Failed to cleanup service in provisioner deployment: '')
       (Ready (cleanup (ProvisionerDeployment.deployment p) ''deployment'' deploymentDeleteFunc deploymentGetFunc)
          ''Failed to cleanup deployment in provisioner deployment: '')"

text \<open>The events one cleanup task leaves when its call returns \<open>r\<close>.\<close>

definition task_events :: "'o csi_call \<Rightarrow> string \<Rightarrow> error option \<Rightarrow> 'o csi_call event list" where
  "task_events c message r =
     Call c r # (case r of None \<Rightarrow> [] | Some err \<Rightarrow> [Log WarnLevel (message @ Error err)])"

section \<open>A small cluster to evaluate on\<close>

text \<open>
  An instance of the constants, and a cluster that holds nothing but the marker setting:
  a create succeeds when the setting is absent and answers "already exists" otherwise, an
  update succeeds when it is present, every other call succeeds and changes nothing. A
  call listed in \<open>fault\<close> fails with the given error and changes nothing. The probe answers
  \<open>probe\<close>. The candidate wins the lease at once.
\<close>

definition example_types :: constants where
  "example_types =
     \<lparr>EnvPodNamespace = ''POD_NAMESPACE'', NamespaceDefault = ''default'',
      SettingNameCRDAPIVersion = ''crd-api-version'',
      CRDAPIVersionV1beta1 = ''v1beta1'', CRDAPIVersionV1beta2 = ''v1beta2'',
      CurrentCRDAPIVersion = ''v1beta2''\<rparr>"

definition marker_write :: "call \<Rightarrow> setting option \<Rightarrow> error option \<times> setting option" where
  "marker_write c s =
     (case c of
        Settings_Create namespace st \<Rightarrow>
          (case s of None \<Rightarrow> (None, Some st)
           | Some old \<Rightarrow> (Some (StatusError StatusReasonAlreadyExists ''already exists''), s))
      | Settings_Update namespace st \<Rightarrow>
          (case s of None \<Rightarrow> (Some (StatusError StatusReasonNotFound ''not found''), s)
           | Some old \<Rightarrow> (None, Some st))
      | _ \<Rightarrow> (None, s))"

definition marker_cluster :: "(call \<times> error) list \<Rightarrow> error + bool \<Rightarrow> (setting option) externals" where
  "marker_cluster fault probe =
     \<lparr>invoke = (\<lambda>c s. case map_of fault c of Some e \<Rightarrow> (Some e, s) | None \<Rightarrow> marker_write c s),
      get_setting = (\<lambda>namespace name s.
         case s of None \<Rightarrow> Inl (StatusError StatusReasonNotFound ''not found'') | Some st \<Rightarrow> Inr st),
      can_upgrade = (\<lambda>namespace s. (probe, s)),
      getenv = (\<lambda>name. ''longhorn-system''),
      acquire_lease = (\<lambda>name namespace identity s. ([identity], Some s)),
      release_lease = (\<lambda>name namespace identity s. s)\<rparr>"

section \<open>Notions the properties are stated with\<close>

text \<open>
  The marker reads as empty: the setting is absent (the read answers "not found") or its
  value is the empty string.
\<close>

definition reads_empty :: "constants \<Rightarrow> 's externals \<Rightarrow> string \<Rightarrow> 's \<Rightarrow> bool" where
  "reads_empty types ext namespace s =
     (case get_setting ext namespace (SettingNameCRDAPIVersion types) s of
        Inl err \<Rightarrow> IsNotFound err
      | Inr st \<Rightarrow> Value st = '''')"

text \<open>
  The chain after the version resolution as the specification orders it: the custom
  resource upgraders by ascending version pair, the pod upgraders, the service upgrader,
  the workload upgrader, each with the name of its phase. \<open>spec_run_steps\<close> runs such a list
  in order and stops at the first error, wrapped with the phase name.
\<close>

definition spec_chain :: "string \<Rightarrow> (string \<times> call) list" where
  "spec_chain namespace =
     map (Pair ''upgrade CRD failed'')
       [v070to080_UpgradeCRs namespace, v100to101_UpgradeCRs namespace,
        v102to110_UpgradeCRs namespace, v110to111_UpgradeCRs namespace,
        v110to120_UpgradeCRs namespace, v111to120_UpgradeCRs namespace,
        v120to121_UpgradeCRs namespace, v122to123_UpgradeCRs namespace]
     @ map (Pair ''upgrade Pods failed'')
       [v100to101_UpgradeInstanceManagerPods namespace, v102to110_UpgradePods namespace,
        v110to111_UpgradePods namespace]
     @ [(''doServicesUpgrade failed'', v110to111_UpgradeServices namespace)]
     @ [(''doDeploymentAndDaemonSetUpgrade failed'', v110to111_UpgradeDeploymentAndDaemonSet namespace)]"

fun spec_run_steps :: "'s externals \<Rightarrow> (string \<times> call) list \<Rightarrow> ('s, call) world
    \<Rightarrow> error option \<times> ('s, call) world" where
  "spec_run_steps ext [] w = (None, w)"
| "spec_run_steps ext ((phase, c) # rest) w =
     (case exec ext c w of
        (Some err, w') \<Rightarrow> (Some (WithMessage err phase), w')
      | (None, w') \<Rightarrow> spec_run_steps ext rest w')"

text \<open>The events of steps that all returned nil.\<close>

definition succeeded :: "(string \<times> call) list \<Rightarrow> call event list" where
  "succeeded steps = map (\<lambda>step. Call (snd step) None) steps"

text \<open>
  The five phases of the leader's run in the order of the specification's state machine,
  and the results of the phases that ran: a list that ends at the first error.
\<close>

definition spec_phases :: "constants \<Rightarrow> 's externals \<Rightarrow> string
    \<Rightarrow> (('s, call) world \<Rightarrow> error option \<times> ('s, call) world) list" where
  "spec_phases types ext namespace =
     [doAPIVersionUpgrade types ext namespace, doCRUpgrade ext namespace, doPodsUpgrade ext namespace,
      doServicesUpgrade ext namespace, doDeploymentAndDaemonSetUpgrade ext namespace]"

fun phase_results :: "('w \<Rightarrow> error option \<times> 'w) list \<Rightarrow> 'w \<Rightarrow> error option list" where
  "phase_results [] w = []"
| "phase_results (f # fs) w =
     (case f w of (Some err, w') \<Rightarrow> [Some err] | (None, w') \<Rightarrow> None # phase_results fs w')"



text \<open>A function only appends to the trace, and only events with the property \<open>P\<close>.\<close>

definition emits :: "('c event \<Rightarrow> bool) \<Rightarrow> (('s, 'c) world \<Rightarrow> 'a \<times> ('s, 'c) world) \<Rightarrow> bool" where
  "emits P f = (\<forall>w. \<exists>evs. trace (snd (f w)) = trace w @ evs \<and> list_all P evs)"


text \<open>The warning a cleanup task logs when its call returned \<open>r\<close>: none when \<open>r\<close> is nil.\<close>

definition task_warning :: "string \<Rightarrow> error option \<Rightarrow> 'c event list" where
  "task_warning message r =
     (case r of None \<Rightarrow> [] | Some err \<Rightarrow> [Log WarnLevel (message @ Error err)])"

text \<open>
  What \<open>Cleanup\<close> may leave when the cleanup call of the task \<open>(c1, m1)\<close> comes before the
  one of the task \<open>(c2, m2)\<close>: the first call acts on the cluster as \<open>Cleanup\<close> found it,
  the second on the cluster the first left, whatever the first returned, and the cluster
  after \<open>Cleanup\<close> is the one the second left. The trace has the first call, then an
  interleaving of the warning of the first task with the events of the second.
\<close>

definition cleanup_runs :: "('o csi_call \<Rightarrow> 's \<Rightarrow> error option \<times> 's) \<Rightarrow> 'o csi_call \<Rightarrow> string
    \<Rightarrow> 'o csi_call \<Rightarrow> string \<Rightarrow> ('s, 'o csi_call) world \<Rightarrow> ('s, 'o csi_call) world set" where
  "cleanup_runs run c1 m1 c2 m2 w =
     (case run c1 (cluster w) of
        (r1, s1) \<Rightarrow>
          (case run c2 s1 of
             (r2, s2) \<Rightarrow>
               (\<lambda>evs. \<lparr>cluster = s2, trace = trace w @ Call c1 r1 # evs\<rparr>)
                 ` shuffles (task_warning m1 r1) (task_events c2 m2 r2)))"

text \<open>
  A cluster that is the list of the objects present: \<open>deploy\<close> adds its object, \<open>cleanup\<close>
  removes it, and a call listed in \<open>fault\<close> fails with the given error and changes nothing.
\<close>

definition object_cluster :: "('o csi_call \<times> error) list \<Rightarrow> 'o csi_call \<Rightarrow> 'o list
    \<Rightarrow> error option \<times> 'o list" where
  "object_cluster fault c s =
     (case map_of fault c of
        Some e \<Rightarrow> (Some e, s)
      | None \<Rightarrow>
          (case c of
             deploy obj resource createFunc deleteFunc getFunc \<Rightarrow>
               (None, if obj \<in> set s then s else s @ [obj])
           | cleanup obj resource deleteFunc getFunc \<Rightarrow> (None, removeAll obj s)))"


text \<open>
  The calls of the version resolution, with the arguments \<open>doAPIVersionUpgrade\<close> gives them,
  and the calls of a leader's run: those and the calls of the chain.
\<close>

definition version_call :: "constants \<Rightarrow> string \<Rightarrow> call \<Rightarrow> bool" where
  "version_call types namespace c =
     (c = Settings_Get namespace (SettingNameCRDAPIVersion types)
      \<or> c = v1beta1_CanUpgrade namespace
      \<or> c = Settings_Create namespace
             \<lparr>Name = SettingNameCRDAPIVersion types, Value = CurrentCRDAPIVersion types\<rparr>
      \<or> c = v1beta1_UpgradeCRFromV1beta1ToV1beta2 namespace
      \<or> (\<exists>st. c = Settings_Update namespace (st\<lparr>Value := CRDAPIVersionV1beta2 types\<rparr>)))"

definition leader_call :: "constants \<Rightarrow> string \<Rightarrow> call \<Rightarrow> bool" where
  "leader_call types namespace c =
     (version_call types namespace c \<or> c \<in> snd ` set (spec_chain namespace))"

text \<open>
  What the properties of the marker assume of the cluster API, for a reading \<open>marker\<close> of
  the marker's value in a cluster state (\<open>None\<close>: no marker setting): a successful read of
  the setting returns the marker, a read that answers "not found" means there is none, a
  call changes the marker only if it is a create or an update of a setting, and then to
  the value written, and the probe does not change it.
\<close>

definition marker_store :: "'s externals \<Rightarrow> constants \<Rightarrow> ('s \<Rightarrow> string option) \<Rightarrow> bool" where
  "marker_store ext types marker =
     ((\<forall>namespace s st. get_setting ext namespace (SettingNameCRDAPIVersion types) s = Inr st
          \<longrightarrow> marker s = Some (Value st))
      \<and> (\<forall>namespace s e. get_setting ext namespace (SettingNameCRDAPIVersion types) s = Inl e
          \<and> IsNotFound e \<longrightarrow> marker s = None)
      \<and> (\<forall>c s. marker (snd (invoke ext c s)) = marker s
          \<or> (\<exists>namespace st. (c = Settings_Create namespace st \<or> c = Settings_Update namespace st)
                \<and> marker (snd (invoke ext c s)) = Some (Value st)))
      \<and> (\<forall>namespace s. marker (snd (can_upgrade ext namespace s)) = marker s))"

text \<open>The cluster state after a number of leader's runs, one after the other.\<close>

fun tenures :: "constants \<Rightarrow> 's externals \<Rightarrow> string \<Rightarrow> nat \<Rightarrow> 's \<Rightarrow> 's" where
  "tenures types ext namespace 0 s = s"
| "tenures types ext namespace (Suc n) s =
     tenures types ext namespace n (cluster (snd (OnStartedLeading types ext namespace (init s))))"


text \<open>An event that, if it writes a setting, writes the current tag as its value.\<close>

definition writes_current :: "constants \<Rightarrow> call event \<Rightarrow> bool" where
  "writes_current types ev =
     (case ev of
        Call (Settings_Create namespace st) r \<Rightarrow> Value st = CurrentCRDAPIVersion types
      | Call (Settings_Update namespace st) r \<Rightarrow> Value st = CurrentCRDAPIVersion types
      | _ \<Rightarrow> True)"


section \<open>The chain refines the ordered list of steps\<close>

lemmas step_defs = exec_def perform_def exec_Get_def exec_CanUpgrade_def logrus_def err_of_def

lemma spec_run_steps_append:
  "spec_run_steps ext (xs @ ys) w = andThen (spec_run_steps ext xs) (spec_run_steps ext ys) w"
  by (induction xs arbitrary: w) (auto simp: andThen_def split: prod.splits option.splits)

lemma deferred_Wrap_andThen:
  "deferred_Wrap phase (andThen (exec ext c) body) w =
     (case exec ext c w of
        (Some err, w') \<Rightarrow> (Some (WithMessage err phase), w')
      | (None, w') \<Rightarrow> deferred_Wrap phase body w')"
  by (simp add: deferred_Wrap_def andThen_def split: prod.splits option.splits)

lemma deferred_Wrap_steps:
  "deferred_Wrap phase (foldr (\<lambda>c rest. andThen (exec ext c) rest) cs return_nil) w =
   spec_run_steps ext (map (Pair phase) cs) w"
proof (induction cs arbitrary: w)
  case Nil
  show ?case by (simp add: deferred_Wrap_def return_nil_def)
next
  case (Cons c cs)
  show ?case by (simp add: deferred_Wrap_andThen Cons.IH split: prod.splits option.splits)
qed

lemma doCRUpgrade_steps:
  "doCRUpgrade ext namespace w = spec_run_steps ext (map (Pair ''upgrade CRD failed'')
       [v070to080_UpgradeCRs namespace, v100to101_UpgradeCRs namespace,
        v102to110_UpgradeCRs namespace, v110to111_UpgradeCRs namespace,
        v110to120_UpgradeCRs namespace, v111to120_UpgradeCRs namespace,
        v120to121_UpgradeCRs namespace, v122to123_UpgradeCRs namespace]) w"
  unfolding deferred_Wrap_steps [symmetric] doCRUpgrade_def by simp

lemma doPodsUpgrade_steps:
  "doPodsUpgrade ext namespace w = spec_run_steps ext (map (Pair ''upgrade Pods failed'')
       [v100to101_UpgradeInstanceManagerPods namespace, v102to110_UpgradePods namespace,
        v110to111_UpgradePods namespace]) w"
  unfolding deferred_Wrap_steps [symmetric] doPodsUpgrade_def by simp

lemma doServicesUpgrade_steps:
  "doServicesUpgrade ext namespace w =
   spec_run_steps ext [(''doServicesUpgrade failed'', v110to111_UpgradeServices namespace)] w"
  using deferred_Wrap_steps [of "''doServicesUpgrade failed''" ext "[v110to111_UpgradeServices namespace]" w]
  by (simp add: doServicesUpgrade_def)

lemma doDeploymentAndDaemonSetUpgrade_steps:
  "doDeploymentAndDaemonSetUpgrade ext namespace w =
   spec_run_steps ext [(''doDeploymentAndDaemonSetUpgrade failed'',
                   v110to111_UpgradeDeploymentAndDaemonSet namespace)] w"
  using deferred_Wrap_steps [of "''doDeploymentAndDaemonSetUpgrade failed''" ext
          "[v110to111_UpgradeDeploymentAndDaemonSet namespace]" w]
  by (simp add: doDeploymentAndDaemonSetUpgrade_def)

lemma andThen_cong_fun:
  "(\<And>w. f w = f' w) \<Longrightarrow> (\<And>w. g w = g' w) \<Longrightarrow> andThen f g w = andThen f' g' w"
  by (simp add: andThen_def split: prod.splits option.splits)

lemma later_phases_steps:
  "andThen (doCRUpgrade ext namespace)
     (andThen (doPodsUpgrade ext namespace)
     (andThen (doServicesUpgrade ext namespace)
              (doDeploymentAndDaemonSetUpgrade ext namespace))) w
   = spec_run_steps ext (spec_chain namespace) w"
proof -
  have "spec_run_steps ext (spec_chain namespace) w =
        andThen (spec_run_steps ext (map (Pair ''upgrade CRD failed'')
       [v070to080_UpgradeCRs namespace, v100to101_UpgradeCRs namespace,
        v102to110_UpgradeCRs namespace, v110to111_UpgradeCRs namespace,
        v110to120_UpgradeCRs namespace, v111to120_UpgradeCRs namespace,
        v120to121_UpgradeCRs namespace, v122to123_UpgradeCRs namespace]))
        (andThen (spec_run_steps ext (map (Pair ''upgrade Pods failed'')
       [v100to101_UpgradeInstanceManagerPods namespace, v102to110_UpgradePods namespace,
        v110to111_UpgradePods namespace]))
        (andThen (spec_run_steps ext [(''doServicesUpgrade failed'', v110to111_UpgradeServices namespace)])
          (spec_run_steps ext [(''doDeploymentAndDaemonSetUpgrade failed'',
                   v110to111_UpgradeDeploymentAndDaemonSet namespace)]))) w"
    unfolding spec_chain_def
    by (simp only: spec_run_steps_append [abs_def])
  also have "\<dots> = andThen (doCRUpgrade ext namespace)
     (andThen (doPodsUpgrade ext namespace)
     (andThen (doServicesUpgrade ext namespace)
              (doDeploymentAndDaemonSetUpgrade ext namespace))) w"
    by (intro andThen_cong_fun doCRUpgrade_steps [symmetric] doPodsUpgrade_steps [symmetric]
          doServicesUpgrade_steps [symmetric] doDeploymentAndDaemonSetUpgrade_steps [symmetric])
  finally show ?thesis by simp
qed

lemma spec_run_steps_trace:
  "spec_run_steps ext steps w = (r, w') \<Longrightarrow>
     (r = None \<and> trace w' = trace w @ succeeded steps)
   \<or> (\<exists>n err. n < length steps \<and> r = Some (WithMessage err (fst (steps ! n)))
         \<and> trace w' = trace w @ succeeded (take n steps) @ [Call (snd (steps ! n)) (Some err)])"
proof (induction steps arbitrary: w)
  case Nil
  then show ?case by (simp add: succeeded_def)
next
  case (Cons step steps)
  obtain phase c where step: "step = (phase, c)" by (cases step)
  obtain r1 s1 where inv: "invoke ext c (cluster w) = (r1, s1)" by (cases "invoke ext c (cluster w)")
  show ?case
  proof (cases r1)
    case None
    let ?w1 = "\<lparr>cluster = s1, trace = trace w @ [Call c None]\<rparr>"
    from Cons.prems step inv None have "spec_run_steps ext steps ?w1 = (r, w')"
      by (simp add: exec_def perform_def)
    from Cons.IH [OF this] show ?thesis
    proof
      assume "r = None \<and> trace w' = trace ?w1 @ succeeded steps"
      then show ?thesis by (simp add: succeeded_def step)
    next
      assume "\<exists>n err. n < length steps \<and> r = Some (WithMessage err (fst (steps ! n)))
         \<and> trace w' = trace ?w1 @ succeeded (take n steps) @ [Call (snd (steps ! n)) (Some err)]"
      then obtain n err where n: "n < length steps" "r = Some (WithMessage err (fst (steps ! n)))"
        "trace w' = trace ?w1 @ succeeded (take n steps) @ [Call (snd (steps ! n)) (Some err)]"
        by blast
      have "Suc n < length (step # steps) \<and> r = Some (WithMessage err (fst ((step # steps) ! Suc n)))
         \<and> trace w' = trace w @ succeeded (take (Suc n) (step # steps))
              @ [Call (snd ((step # steps) ! Suc n)) (Some err)]"
        using n by (simp add: succeeded_def step)
      then show ?thesis by blast
    qed
  next
    case (Some err)
    from Cons.prems step inv Some have "r = Some (WithMessage err phase)"
      "w' = \<lparr>cluster = s1, trace = trace w @ [Call c (Some err)]\<rparr>"
      by (auto simp add: exec_def perform_def)
    then have "0 < length (step # steps) \<and> r = Some (WithMessage err (fst ((step # steps) ! 0)))
         \<and> trace w' = trace w @ succeeded (take 0 (step # steps))
              @ [Call (snd ((step # steps) ! 0)) (Some err)]"
      by (simp add: succeeded_def step)
    then show ?thesis by blast
  qed
qed

lemma later_phases_first_call:
  "\<exists>r rest. trace (snd (spec_run_steps ext (spec_chain namespace) w)) =
     trace w @ [Call (v070to080_UpgradeCRs namespace) r] @ rest"
proof -
  obtain r w' where run: "spec_run_steps ext (spec_chain namespace) w = (r, w')"
    by (cases "spec_run_steps ext (spec_chain namespace) w")
  from spec_run_steps_trace [OF run] show ?thesis
  proof
    assume "r = None \<and> trace w' = trace w @ succeeded (spec_chain namespace)"
    then show ?thesis using run by (simp add: succeeded_def spec_chain_def)
  next
    assume "\<exists>n err. n < length (spec_chain namespace)
        \<and> r = Some (WithMessage err (fst (spec_chain namespace ! n)))
        \<and> trace w' = trace w @ succeeded (take n (spec_chain namespace))
             @ [Call (snd (spec_chain namespace ! n)) (Some err)]"
    then obtain n err where n: "trace w' = trace w @ succeeded (take n (spec_chain namespace))
             @ [Call (snd (spec_chain namespace ! n)) (Some err)]" by blast
    show ?thesis
    proof (cases n)
      case 0
      with n run show ?thesis by (simp add: succeeded_def spec_chain_def)
    next
      case (Suc m)
      with n run show ?thesis by (simp add: succeeded_def spec_chain_def)
    qed
  qed
qed

lemma OnStartedLeading_after_version:
  assumes "doAPIVersionUpgrade types ext namespace (logrus InfoLevel ''Start upgrading'' w) = (None, w1)"
  shows "OnStartedLeading types ext namespace w =
     (case spec_run_steps ext (spec_chain namespace) w1 of
        (Some err, w') \<Rightarrow> (Some err, logrus ErrorLevel (''Upgrade failed: '' @ Error err) w')
      | (None, w') \<Rightarrow> (None, logrus InfoLevel ''Finish upgrading'' w'))"
  using assms later_phases_steps [of ext namespace w1]
  by (simp add: OnStartedLeading_def andThen_def [of "doAPIVersionUpgrade types ext namespace"])

lemma OnStartedLeading_version_failed:
  assumes "doAPIVersionUpgrade types ext namespace (logrus InfoLevel ''Start upgrading'' w) = (Some e, w1)"
  shows "OnStartedLeading types ext namespace w =
     (Some e, logrus ErrorLevel (''Upgrade failed: '' @ Error e) w1)"
  using assms
  by (simp add: OnStartedLeading_def andThen_def [of "doAPIVersionUpgrade types ext namespace"])

lemmas run_defs = OnStartedLeading_def doAPIVersionUpgrade_def doAPIVersionUpgrade_switch_def
  doCRUpgrade_def doPodsUpgrade_def doServicesUpgrade_def doDeploymentAndDaemonSetUpgrade_def
  upgradeLocalNode_def andThen_def deferred_Wrap_def return_nil_def step_defs
  marker_cluster_def marker_write_def example_types_def init_def

section \<open>The order of the phases\<close>

text \<open>
  C1. The leader's run executes the API version resolution first, on the cluster as the
  candidate found it. When the resolution fails, its error, wrapped with "upgrade API
  version failed", is the result and nothing is called after it. Otherwise the run is the
  run of the chain \<open>spec_chain\<close> from the cluster the resolution left: the custom resource
  upgraders in ascending order (v070to080, v100to101, v102to110, v110to111, v110to120,
  v111to120, v120to121, v122to123), then the pod upgraders, the service upgrader and the
  workload upgrader, each called on the cluster the one before it left; the first call
  that fails is the last call of the run, and the result is its error wrapped with the
  name of its phase; when all calls returned nil the result is nil. The result, the
  cluster and the trace of the run are those of \<open>spec_run_steps\<close>, followed by the line
  that logs the outcome.
\<close>

theorem chain_order_fail_fast:
  assumes "doAPIVersionUpgrade types ext namespace (logrus InfoLevel ''Start upgrading'' w) = (version, w1)"
  shows "OnStartedLeading types ext namespace w =
           (case version of
              Some e \<Rightarrow> (Some e, logrus ErrorLevel (''Upgrade failed: '' @ Error e) w1)
            | None \<Rightarrow>
                (case spec_run_steps ext (spec_chain namespace) w1 of
                   (Some err, w') \<Rightarrow> (Some err, logrus ErrorLevel (''Upgrade failed: '' @ Error err) w')
                 | (None, w') \<Rightarrow> (None, logrus InfoLevel ''Finish upgrading'' w')))
         \<and> (case version of
              Some e \<Rightarrow> \<exists>cause. e = WithMessage cause ''upgrade API version failed''
            | None \<Rightarrow> True)"
proof (cases version)
  case (Some e)
  from assms Some have wrapped: "\<exists>cause. e = WithMessage cause ''upgrade API version failed''"
    by (auto simp add: doAPIVersionUpgrade_def split: prod.splits elim: Wrap.elims)
  from assms Some OnStartedLeading_version_failed [of types ext namespace w e w1]
  have "OnStartedLeading types ext namespace w
      = (Some e, logrus ErrorLevel (''Upgrade failed: '' @ Error e) w1)" by simp
  with wrapped Some show ?thesis by simp
next
  case None
  with assms OnStartedLeading_after_version [of types ext namespace w w1]
  show ?thesis by simp
qed

text \<open>
  Three runs on the small cluster. With a current marker and a failing service upgrader,
  the custom resource and pod upgraders have run in order, the workload upgrader is not
  called and the error carries the name of the service phase. With a failing workload
  upgrader all thirteen upgraders have been called and the error carries the name of the
  workload phase. With an unrecognized marker the version resolution fails and no
  upgrader is called.
\<close>

theorem chain_order_fail_fast_witness:
  "OnStartedLeading example_types
      (marker_cluster [(v110to111_UpgradeServices ''longhorn-system'', ErrorString ''boom'')] (Inr True))
      ''longhorn-system'' (init (Some \<lparr>Name = ''crd-api-version'', Value = ''v1beta2''\<rparr>))
     = (Some (WithMessage (ErrorString ''boom'') ''doServicesUpgrade failed''),
        \<lparr>cluster = Some \<lparr>Name = ''crd-api-version'', Value = ''v1beta2''\<rparr>,
         trace = [Log InfoLevel ''Start upgrading'',
                  Call (Settings_Get ''longhorn-system'' ''crd-api-version'') None,
                  Log InfoLevel ''No API version upgrade is needed'',
                  Call (v070to080_UpgradeCRs ''longhorn-system'') None,
                  Call (v100to101_UpgradeCRs ''longhorn-system'') None,
                  Call (v102to110_UpgradeCRs ''longhorn-system'') None,
                  Call (v110to111_UpgradeCRs ''longhorn-system'') None,
                  Call (v110to120_UpgradeCRs ''longhorn-system'') None,
                  Call (v111to120_UpgradeCRs ''longhorn-system'') None,
                  Call (v120to121_UpgradeCRs ''longhorn-system'') None,
                  Call (v122to123_UpgradeCRs ''longhorn-system'') None,
                  Call (v100to101_UpgradeInstanceManagerPods ''longhorn-system'') None,
                  Call (v102to110_UpgradePods ''longhorn-system'') None,
                  Call (v110to111_UpgradePods ''longhorn-system'') None,
                  Call (v110to111_UpgradeServices ''longhorn-system'') (Some (ErrorString ''boom'')),
                  Log ErrorLevel ''Upgrade failed: doServicesUpgrade failed: boom'']\<rparr>)
   \<and> OnStartedLeading example_types
      (marker_cluster [(v110to111_UpgradeDeploymentAndDaemonSet ''longhorn-system'', ErrorString ''boom'')]
         (Inr True))
      ''longhorn-system'' (init (Some \<lparr>Name = ''crd-api-version'', Value = ''v1beta2''\<rparr>))
     = (Some (WithMessage (ErrorString ''boom'') ''doDeploymentAndDaemonSetUpgrade failed''),
        \<lparr>cluster = Some \<lparr>Name = ''crd-api-version'', Value = ''v1beta2''\<rparr>,
         trace = [Log InfoLevel ''Start upgrading'',
                  Call (Settings_Get ''longhorn-system'' ''crd-api-version'') None,
                  Log InfoLevel ''No API version upgrade is needed'',
                  Call (v070to080_UpgradeCRs ''longhorn-system'') None,
                  Call (v100to101_UpgradeCRs ''longhorn-system'') None,
                  Call (v102to110_UpgradeCRs ''longhorn-system'') None,
                  Call (v110to111_UpgradeCRs ''longhorn-system'') None,
                  Call (v110to120_UpgradeCRs ''longhorn-system'') None,
                  Call (v111to120_UpgradeCRs ''longhorn-system'') None,
                  Call (v120to121_UpgradeCRs ''longhorn-system'') None,
                  Call (v122to123_UpgradeCRs ''longhorn-system'') None,
                  Call (v100to101_UpgradeInstanceManagerPods ''longhorn-system'') None,
                  Call (v102to110_UpgradePods ''longhorn-system'') None,
                  Call (v110to111_UpgradePods ''longhorn-system'') None,
                  Call (v110to111_UpgradeServices ''longhorn-system'') None,
                  Call (v110to111_UpgradeDeploymentAndDaemonSet ''longhorn-system'')
                    (Some (ErrorString ''boom'')),
                  Log ErrorLevel ''Upgrade failed: doDeploymentAndDaemonSetUpgrade failed: boom'']\<rparr>)
   \<and> OnStartedLeading example_types (marker_cluster [] (Inr True))
      ''longhorn-system'' (init (Some \<lparr>Name = ''crd-api-version'', Value = ''v9''\<rparr>))
     = (Some (WithMessage (ErrorString ''unrecognized CRD API version v9'') ''upgrade API version failed''),
        \<lparr>cluster = Some \<lparr>Name = ''crd-api-version'', Value = ''v9''\<rparr>,
         trace = [Log InfoLevel ''Start upgrading'',
                  Call (Settings_Get ''longhorn-system'' ''crd-api-version'') None,
                  Log ErrorLevel
                    ''Upgrade failed: upgrade API version failed: unrecognized CRD API version v9'']\<rparr>)"
proof -
  let ?S = "marker_cluster [(v110to111_UpgradeServices ''longhorn-system'', ErrorString ''boom'')] (Inr True)"
  let ?D = "marker_cluster [(v110to111_UpgradeDeploymentAndDaemonSet ''longhorn-system'',
               ErrorString ''boom'')] (Inr True)"
  let ?N = "marker_cluster [] (Inr True)"
  let ?M = "Some \<lparr>Name = ''crd-api-version'', Value = ''v1beta2''\<rparr>"
  let ?M9 = "Some \<lparr>Name = ''crd-api-version'', Value = ''v9''\<rparr>"
  let ?W1 = "\<lparr>cluster = ?M,
         trace = [Log InfoLevel ''Start upgrading'',
                  Call (Settings_Get ''longhorn-system'' ''crd-api-version'') None,
                  Log InfoLevel ''No API version upgrade is needed'']\<rparr>"
  let ?W9 = "\<lparr>cluster = ?M9,
         trace = [Log InfoLevel ''Start upgrading'',
                  Call (Settings_Get ''longhorn-system'' ''crd-api-version'') None]\<rparr>"
  have s: "doAPIVersionUpgrade example_types ?S ''longhorn-system''
      (logrus InfoLevel ''Start upgrading'' (init ?M)) = (None, ?W1)"
    by (simp add: run_defs)
  have d: "doAPIVersionUpgrade example_types ?D ''longhorn-system''
      (logrus InfoLevel ''Start upgrading'' (init ?M)) = (None, ?W1)"
    by (simp add: run_defs)
  have n: "doAPIVersionUpgrade example_types ?N ''longhorn-system''
      (logrus InfoLevel ''Start upgrading'' (init ?M9))
      = (Some (WithMessage (ErrorString ''unrecognized CRD API version v9'') ''upgrade API version failed''),
         ?W9)"
    by (simp add: run_defs)
  note service = chain_order_fail_fast [OF s, THEN conjunct1]
  note workload = chain_order_fail_fast [OF d, THEN conjunct1]
  note version = chain_order_fail_fast [OF n, THEN conjunct1]
  show ?thesis
    unfolding service workload version
    by (simp add: spec_chain_def step_defs marker_cluster_def marker_write_def)
qed

section \<open>Resolving the API version\<close>

text \<open>
  C2. When the marker setting is read with a value that is not empty, not the legacy tag
  (v1beta1) and not the v1beta2 tag, \<open>doAPIVersionUpgrade\<close> returns the error "unrecognized
  CRD API version" with that value (under the deferred wrap of the function), its only
  call is the read of the setting, and the cluster is left as it was.
\<close>

theorem unrecognized_version_guard:
  assumes "get_setting ext namespace (SettingNameCRDAPIVersion types) (cluster w) = Inr s"
    and "Value s \<noteq> ''''"
    and "Value s \<noteq> CRDAPIVersionV1beta1 types"
    and "Value s \<noteq> CRDAPIVersionV1beta2 types"
  shows "doAPIVersionUpgrade types ext namespace w =
     (Some (WithMessage (ErrorString (''unrecognized CRD API version '' @ Value s)) ''upgrade API version failed''),
      \<lparr>cluster = cluster w,
       trace = trace w @ [Call (Settings_Get namespace (SettingNameCRDAPIVersion types)) None]\<rparr>)"
  using assms by (simp add: doAPIVersionUpgrade_def doAPIVersionUpgrade_switch_def step_defs)

theorem unrecognized_version_guard_witness:
  "get_setting (marker_cluster [] (Inr True)) ''longhorn-system'' (SettingNameCRDAPIVersion example_types)
      (cluster (init (Some \<lparr>Name = ''crd-api-version'', Value = ''v3''\<rparr>)))
     = Inr \<lparr>Name = ''crd-api-version'', Value = ''v3''\<rparr>
   \<and> Value \<lparr>Name = ''crd-api-version'', Value = ''v3''\<rparr> \<noteq> ''''
   \<and> Value \<lparr>Name = ''crd-api-version'', Value = ''v3''\<rparr> \<noteq> CRDAPIVersionV1beta1 example_types
   \<and> Value \<lparr>Name = ''crd-api-version'', Value = ''v3''\<rparr> \<noteq> CRDAPIVersionV1beta2 example_types
   \<and> doAPIVersionUpgrade example_types (marker_cluster [] (Inr True)) ''longhorn-system''
        (init (Some \<lparr>Name = ''crd-api-version'', Value = ''v3''\<rparr>)) =
     (Some (WithMessage (ErrorString ''unrecognized CRD API version v3'') ''upgrade API version failed''),
      \<lparr>cluster = Some \<lparr>Name = ''crd-api-version'', Value = ''v3''\<rparr>,
       trace = [Call (Settings_Get ''longhorn-system'' ''crd-api-version'') None]\<rparr>)"
proof -
  let ?m = "\<lparr>Name = ''crd-api-version'', Value = ''v3''\<rparr>"
  have h1: "get_setting (marker_cluster [] (Inr True)) ''longhorn-system'' (SettingNameCRDAPIVersion example_types)
      (cluster (init (Some ?m))) = Inr ?m"
    by (simp add: marker_cluster_def init_def)
  have h2: "Value ?m \<noteq> ''''" by simp
  have h3: "Value ?m \<noteq> CRDAPIVersionV1beta1 example_types" by (simp add: example_types_def)
  have h4: "Value ?m \<noteq> CRDAPIVersionV1beta2 example_types" by (simp add: example_types_def)
  from unrecognized_version_guard [OF h1 h2 h3 h4] h1 h2 h3 h4
  show ?thesis by (simp add: init_def example_types_def)
qed

lemma fresh_result:
  assumes "reads_empty types ext namespace (cluster w)"
    and "CurrentCRDAPIVersion types \<noteq> ''''"
  shows "doAPIVersionUpgrade types ext namespace w =
     (let get = Call (Settings_Get namespace (SettingNameCRDAPIVersion types))
                  (err_of (get_setting ext namespace (SettingNameCRDAPIVersion types) (cluster w)));
          probe = v1beta1_CanUpgrade namespace;
          create = Settings_Create namespace
                 \<lparr>Name = SettingNameCRDAPIVersion types, Value = CurrentCRDAPIVersion types\<rparr>
      in case can_upgrade ext namespace (cluster w) of
           (Inl err, s1) \<Rightarrow>
             (Some (WithMessage err ''upgrade API version failed''),
              \<lparr>cluster = s1, trace = trace w @ [get, Call probe (Some err)]\<rparr>)
         | (Inr upgradable, s1) \<Rightarrow>
             if upgradable then
               (case invoke ext create s1 of
                  (None, s2) \<Rightarrow>
                    (None, \<lparr>cluster = s2, trace = trace w @ [get, Call probe None, Call create None,
                        Log InfoLevel (''New '' @ CurrentCRDAPIVersion types @ '' installation'')]\<rparr>)
                | (Some err, s2) \<Rightarrow>
                    if IsAlreadyExists err
                    then (None, \<lparr>cluster = s2, trace = trace w @ [get, Call probe None, Call create (Some err),
                        Log InfoLevel (''New '' @ CurrentCRDAPIVersion types @ '' installation'')]\<rparr>)
                    else (Some (WithMessage (WithMessage err ''cannot create CRDAPIVersionSetting'')
                                  ''upgrade API version failed''),
                          \<lparr>cluster = s2, trace = trace w @ [get, Call probe None, Call create (Some err)]\<rparr>))
             else (None, \<lparr>cluster = s1, trace = trace w @ [get, Call probe None]\<rparr>))"
proof -
  have switch: "doAPIVersionUpgrade_switch types ext namespace st '''' v =
     (case exec_CanUpgrade ext namespace v of
           (Inl err, w1) \<Rightarrow> (Some err, w1)
         | (Inr upgradable, w1) \<Rightarrow>
             if upgradable then
               (case exec ext (Settings_Create namespace
                        \<lparr>Name = SettingNameCRDAPIVersion types, Value = CurrentCRDAPIVersion types\<rparr>) w1 of
                  (err, w2) \<Rightarrow>
                    if (case err of None \<Rightarrow> False | Some e \<Rightarrow> \<not> IsAlreadyExists e)
                    then (Wrap err ''cannot create CRDAPIVersionSetting'', w2)
                    else (None, logrus InfoLevel (''New '' @ CurrentCRDAPIVersion types @ '' installation'') w2))
             else (None, w1))" for st v
    using assms(2) by (simp add: doAPIVersionUpgrade_switch_def)
  show ?thesis
  proof (cases "get_setting ext namespace (SettingNameCRDAPIVersion types) (cluster w)")
    case (Inl e)
    with assms(1) have "IsNotFound e" by (simp add: reads_empty_def)
    with Inl show ?thesis
      by (auto simp add: doAPIVersionUpgrade_def switch step_defs Let_def
          split: prod.splits sum.splits option.splits)
  next
    case (Inr st)
    with assms(1) have "Value st = ''''" by (simp add: reads_empty_def)
    with Inr show ?thesis
      by (auto simp add: doAPIVersionUpgrade_def switch step_defs Let_def
          split: prod.splits sum.splits option.splits)
  qed
qed

text \<open>
  C3. When the marker reads as empty or absent and the current tag is not the empty
  string: if the probe answers upgradable, the next call creates the marker setting with
  the current tag as its value, and when that create succeeds the function returns nil; if
  the probe answers not upgradable, the function returns nil without any further call, so
  no marker is written; if the probe fails, its error is returned (under the deferred wrap
  of the function) and nothing else is called.
\<close>

theorem fresh_install_probe:
  assumes "reads_empty types ext namespace (cluster w)"
    and "CurrentCRDAPIVersion types \<noteq> ''''"
    and "get = Call (Settings_Get namespace (SettingNameCRDAPIVersion types))
                 (err_of (get_setting ext namespace (SettingNameCRDAPIVersion types) (cluster w)))"
    and "create = Settings_Create namespace
                 \<lparr>Name = SettingNameCRDAPIVersion types, Value = CurrentCRDAPIVersion types\<rparr>"
  shows "(\<forall>s1 r s2. can_upgrade ext namespace (cluster w) = (Inr True, s1) \<and> invoke ext create s1 = (r, s2) \<longrightarrow>
            (\<exists>rest. snd (doAPIVersionUpgrade types ext namespace w) =
               \<lparr>cluster = s2,
                trace = trace w @ [get, Call (v1beta1_CanUpgrade namespace) None, Call create r] @ rest\<rparr>)
            \<and> (r = None \<longrightarrow>
                 doAPIVersionUpgrade types ext namespace w =
                   (None, \<lparr>cluster = s2,
                      trace = trace w @ [get, Call (v1beta1_CanUpgrade namespace) None, Call create None,
                        Log InfoLevel (''New '' @ CurrentCRDAPIVersion types @ '' installation'')]\<rparr>)))
       \<and> (\<forall>s1. can_upgrade ext namespace (cluster w) = (Inr False, s1) \<longrightarrow>
            doAPIVersionUpgrade types ext namespace w =
              (None, \<lparr>cluster = s1, trace = trace w @ [get, Call (v1beta1_CanUpgrade namespace) None]\<rparr>))
       \<and> (\<forall>s1 err. can_upgrade ext namespace (cluster w) = (Inl err, s1) \<longrightarrow>
            doAPIVersionUpgrade types ext namespace w =
              (Some (WithMessage err ''upgrade API version failed''),
               \<lparr>cluster = s1, trace = trace w @ [get, Call (v1beta1_CanUpgrade namespace) (Some err)]\<rparr>))"
  unfolding fresh_result [OF assms(1,2)] using assms(3,4)
  by (auto simp add: Let_def split: option.splits)

text \<open>
  Three runs on the small cluster with no marker: the probe answers upgradable and the
  marker is created with the current tag; the probe answers not upgradable and the
  cluster stays empty; the probe fails.
\<close>

theorem fresh_install_probe_witness:
  "doAPIVersionUpgrade example_types (marker_cluster [] (Inr True)) ''longhorn-system'' (init None) =
     (None, \<lparr>cluster = Some \<lparr>Name = ''crd-api-version'', Value = ''v1beta2''\<rparr>,
             trace = [Call (Settings_Get ''longhorn-system'' ''crd-api-version'')
                        (Some (StatusError StatusReasonNotFound ''not found'')),
                      Call (v1beta1_CanUpgrade ''longhorn-system'') None,
                      Call (Settings_Create ''longhorn-system''
                              \<lparr>Name = ''crd-api-version'', Value = ''v1beta2''\<rparr>) None,
                      Log InfoLevel ''New v1beta2 installation'']\<rparr>)
   \<and> doAPIVersionUpgrade example_types (marker_cluster [] (Inr False)) ''longhorn-system'' (init None) =
     (None, \<lparr>cluster = None,
             trace = [Call (Settings_Get ''longhorn-system'' ''crd-api-version'')
                        (Some (StatusError StatusReasonNotFound ''not found'')),
                      Call (v1beta1_CanUpgrade ''longhorn-system'') None]\<rparr>)
   \<and> doAPIVersionUpgrade example_types (marker_cluster [] (Inl (ErrorString ''no CRD list'')))
        ''longhorn-system'' (init None) =
     (Some (WithMessage (ErrorString ''no CRD list'') ''upgrade API version failed''),
      \<lparr>cluster = None,
       trace = [Call (Settings_Get ''longhorn-system'' ''crd-api-version'')
                  (Some (StatusError StatusReasonNotFound ''not found'')),
                Call (v1beta1_CanUpgrade ''longhorn-system'') (Some (ErrorString ''no CRD list''))]\<rparr>)"
proof -
  let ?get = "Call (Settings_Get ''longhorn-system'' ''crd-api-version'')
                (Some (StatusError StatusReasonNotFound ''not found''))"
  let ?create = "Settings_Create ''longhorn-system'' \<lparr>Name = ''crd-api-version'', Value = ''v1beta2''\<rparr>"
  have current: "CurrentCRDAPIVersion example_types \<noteq> ''''" by (simp add: example_types_def)
  have empty: "reads_empty example_types (marker_cluster [] p) ''longhorn-system'' (cluster (init None))" for p
    by (simp add: reads_empty_def marker_cluster_def init_def)
  have get: "?get = Call (Settings_Get ''longhorn-system'' (SettingNameCRDAPIVersion example_types))
      (err_of (get_setting (marker_cluster [] p) ''longhorn-system''
                 (SettingNameCRDAPIVersion example_types) (cluster (init None))))" for p
    by (simp add: marker_cluster_def init_def err_of_def example_types_def)
  have create: "?create = Settings_Create ''longhorn-system''
      \<lparr>Name = SettingNameCRDAPIVersion example_types, Value = CurrentCRDAPIVersion example_types\<rparr>"
    by (simp add: example_types_def)
  have probe: "can_upgrade (marker_cluster [] p) ''longhorn-system'' (cluster (init None)) = (p, None)" for p
    by (simp add: marker_cluster_def init_def)
  have created: "invoke (marker_cluster [] (Inr True)) ?create None
      = (None, Some \<lparr>Name = ''crd-api-version'', Value = ''v1beta2''\<rparr>)"
    by (simp add: marker_cluster_def marker_write_def)
  have a: "doAPIVersionUpgrade example_types (marker_cluster [] (Inr True)) ''longhorn-system'' (init None) =
     (None, \<lparr>cluster = Some \<lparr>Name = ''crd-api-version'', Value = ''v1beta2''\<rparr>,
             trace = [?get, Call (v1beta1_CanUpgrade ''longhorn-system'') None,
                      Call ?create None,
                      Log InfoLevel (''New '' @ CurrentCRDAPIVersion example_types @ '' installation'')]\<rparr>)"
    using fresh_install_probe [OF empty [of "Inr True"] current get [of "Inr True"] create,
        THEN conjunct1, rule_format, OF conjI [OF probe created], THEN conjunct2]
    by (simp add: init_def example_types_def)
  have b: "doAPIVersionUpgrade example_types (marker_cluster [] (Inr False)) ''longhorn-system'' (init None) =
     (None, \<lparr>cluster = None,
             trace = [?get, Call (v1beta1_CanUpgrade ''longhorn-system'') None]\<rparr>)"
    using fresh_install_probe [OF empty [of "Inr False"] current get [of "Inr False"] create,
        THEN conjunct2, THEN conjunct1, rule_format, OF probe]
    by (simp add: init_def example_types_def)
  have c: "doAPIVersionUpgrade example_types (marker_cluster [] (Inl (ErrorString ''no CRD list'')))
        ''longhorn-system'' (init None) =
     (Some (WithMessage (ErrorString ''no CRD list'') ''upgrade API version failed''),
      \<lparr>cluster = None,
       trace = [?get,
                Call (v1beta1_CanUpgrade ''longhorn-system'') (Some (ErrorString ''no CRD list''))]\<rparr>)"
    using fresh_install_probe [OF empty [of "Inl (ErrorString ''no CRD list'')"] current
        get [of "Inl (ErrorString ''no CRD list'')"] create,
        THEN conjunct2, THEN conjunct2, rule_format, OF probe]
    by (simp add: init_def example_types_def)
  from a b c show ?thesis by (simp add: init_def example_types_def)
qed

text \<open>
  C7. On the fresh install path (the marker reads as empty or absent, the current tag is
  not the empty string, the probe answers upgradable), when the create of the marker
  setting fails: with an "already exists" error the function returns nil, with any other
  error it returns that error wrapped with "cannot create CRDAPIVersionSetting" (and with
  the deferred wrap of the function).
\<close>

theorem create_already_exists_is_success:
  assumes "reads_empty types ext namespace (cluster w)"
    and "CurrentCRDAPIVersion types \<noteq> ''''"
    and "can_upgrade ext namespace (cluster w) = (Inr True, s1)"
    and "invoke ext (Settings_Create namespace
           \<lparr>Name = SettingNameCRDAPIVersion types, Value = CurrentCRDAPIVersion types\<rparr>) s1 = (Some err, s2)"
  shows "fst (doAPIVersionUpgrade types ext namespace w) =
           (if IsAlreadyExists err then None
            else Some (WithMessage (WithMessage err ''cannot create CRDAPIVersionSetting'')
                         ''upgrade API version failed''))"
  unfolding fresh_result [OF assms(1,2)] using assms(3,4) by (simp add: Let_def)

text \<open>
  Two runs on the small cluster. The marker setting exists with an empty value, so the
  create answers "already exists": the result is nil. The marker is absent and the create
  is refused: the result is the wrapped error.
\<close>

theorem create_already_exists_is_success_witness:
  "fst (doAPIVersionUpgrade example_types (marker_cluster [] (Inr True)) ''longhorn-system''
          (init (Some \<lparr>Name = ''crd-api-version'', Value = ''''\<rparr>))) = None
   \<and> fst (doAPIVersionUpgrade example_types
          (marker_cluster
             [(Settings_Create ''longhorn-system'' \<lparr>Name = ''crd-api-version'', Value = ''v1beta2''\<rparr>,
               StatusError StatusReasonOther ''forbidden'')] (Inr True))
          ''longhorn-system'' (init None))
       = Some (WithMessage (WithMessage (StatusError StatusReasonOther ''forbidden'')
                 ''cannot create CRDAPIVersionSetting'') ''upgrade API version failed'')"
proof -
  let ?create = "Settings_Create ''longhorn-system'' \<lparr>Name = ''crd-api-version'', Value = ''v1beta2''\<rparr>"
  let ?E = "marker_cluster [] (Inr True)"
  let ?F = "marker_cluster [(?create, StatusError StatusReasonOther ''forbidden'')] (Inr True)"
  let ?M = "Some \<lparr>Name = ''crd-api-version'', Value = ''''\<rparr>"
  have current: "CurrentCRDAPIVersion example_types \<noteq> ''''" by (simp add: example_types_def)
  have e1: "reads_empty example_types ?E ''longhorn-system'' (cluster (init ?M))"
    by (simp add: reads_empty_def marker_cluster_def init_def)
  have e2: "can_upgrade ?E ''longhorn-system'' (cluster (init ?M)) = (Inr True, ?M)"
    by (simp add: marker_cluster_def init_def)
  have e3: "invoke ?E (Settings_Create ''longhorn-system''
      \<lparr>Name = SettingNameCRDAPIVersion example_types, Value = CurrentCRDAPIVersion example_types\<rparr>) ?M
      = (Some (StatusError StatusReasonAlreadyExists ''already exists''), ?M)"
    by (simp add: marker_cluster_def marker_write_def)
  have f1: "reads_empty example_types ?F ''longhorn-system'' (cluster (init None))"
    by (simp add: reads_empty_def marker_cluster_def init_def)
  have f2: "can_upgrade ?F ''longhorn-system'' (cluster (init None)) = (Inr True, None)"
    by (simp add: marker_cluster_def init_def)
  have f3: "invoke ?F (Settings_Create ''longhorn-system''
      \<lparr>Name = SettingNameCRDAPIVersion example_types, Value = CurrentCRDAPIVersion example_types\<rparr>) None
      = (Some (StatusError StatusReasonOther ''forbidden''), None)"
    by (simp add: marker_cluster_def example_types_def)
  from create_already_exists_is_success [OF e1 current e2 e3]
       create_already_exists_is_success [OF f1 current f2 f3]
  show ?thesis by simp
qed

text \<open>
  C4. When the marker holds the legacy tag v1beta1 (a tag that is not empty and differs
  from the current tag v1beta2), the function calls the conversion of the custom resources
  first and updates the marker setting to the current tag only after the conversion has
  returned nil. When the conversion fails, no update is called and its error is returned
  (under the deferred wrap of the function). When the update fails, its error is returned
  wrapped with "cannot finish CRD API upgrade by setting the CRDAPIVersionSetting to" and
  the current tag.
\<close>

theorem legacy_marker_conversion:
  assumes "get_setting ext namespace (SettingNameCRDAPIVersion types) (cluster w) = Inr s"
    and "Value s = CRDAPIVersionV1beta1 types"
    and "CRDAPIVersionV1beta1 types \<noteq> ''''"
    and "CRDAPIVersionV1beta1 types \<noteq> CRDAPIVersionV1beta2 types"
    and "CurrentCRDAPIVersion types = CRDAPIVersionV1beta2 types"
    and "before = trace w @ [Call (Settings_Get namespace (SettingNameCRDAPIVersion types)) None,
           Log InfoLevel (''Upgrading from '' @ CRDAPIVersionV1beta1 types @ '' to '' @ CurrentCRDAPIVersion types)]"
    and "convert = v1beta1_UpgradeCRFromV1beta1ToV1beta2 namespace"
    and "update = Settings_Update namespace (s\<lparr>Value := CurrentCRDAPIVersion types\<rparr>)"
  shows "(\<forall>s1 s2. invoke ext convert (cluster w) = (None, s1) \<and> invoke ext update s1 = (None, s2) \<longrightarrow>
            doAPIVersionUpgrade types ext namespace w =
              (None, \<lparr>cluster = s2,
                      trace = before @ [Call convert None, Call update None,
                        Log InfoLevel (''CRD has been upgraded to '' @ CurrentCRDAPIVersion types)]\<rparr>))
       \<and> (\<forall>s1 err. invoke ext convert (cluster w) = (Some err, s1) \<longrightarrow>
            doAPIVersionUpgrade types ext namespace w =
              (Some (WithMessage err ''upgrade API version failed''),
               \<lparr>cluster = s1, trace = before @ [Call convert (Some err)]\<rparr>))
       \<and> (\<forall>s1 s2 err. invoke ext convert (cluster w) = (None, s1) \<and> invoke ext update s1 = (Some err, s2) \<longrightarrow>
            doAPIVersionUpgrade types ext namespace w =
              (Some (WithMessage
                 (WithMessage err (''cannot finish CRD API upgrade by setting the CRDAPIVersionSetting to ''
                    @ CurrentCRDAPIVersion types))
                 ''upgrade API version failed''),
               \<lparr>cluster = s2, trace = before @ [Call convert None, Call update (Some err)]\<rparr>))"
  using assms
  by (auto simp add: doAPIVersionUpgrade_def doAPIVersionUpgrade_switch_def step_defs)

text \<open>
  Three runs on the small cluster whose marker holds the legacy tag: the conversion and
  the update succeed and the marker holds the current tag; the conversion fails and the
  marker keeps the legacy tag; the update fails.
\<close>

theorem legacy_marker_conversion_witness:
  "doAPIVersionUpgrade example_types (marker_cluster [] (Inr True)) ''longhorn-system''
      (init (Some \<lparr>Name = ''crd-api-version'', Value = ''v1beta1''\<rparr>)) =
     (None,
      \<lparr>cluster = Some \<lparr>Name = ''crd-api-version'', Value = ''v1beta2''\<rparr>,
       trace = [Call (Settings_Get ''longhorn-system'' ''crd-api-version'') None,
                Log InfoLevel ''Upgrading from v1beta1 to v1beta2'',
                Call (v1beta1_UpgradeCRFromV1beta1ToV1beta2 ''longhorn-system'') None,
                Call (Settings_Update ''longhorn-system'' \<lparr>Name = ''crd-api-version'', Value = ''v1beta2''\<rparr>) None,
                Log InfoLevel ''CRD has been upgraded to v1beta2'']\<rparr>)
   \<and> doAPIVersionUpgrade example_types
      (marker_cluster [(v1beta1_UpgradeCRFromV1beta1ToV1beta2 ''longhorn-system'', ErrorString ''conversion failed'')]
         (Inr True))
      ''longhorn-system'' (init (Some \<lparr>Name = ''crd-api-version'', Value = ''v1beta1''\<rparr>)) =
     (Some (WithMessage (ErrorString ''conversion failed'') ''upgrade API version failed''),
      \<lparr>cluster = Some \<lparr>Name = ''crd-api-version'', Value = ''v1beta1''\<rparr>,
       trace = [Call (Settings_Get ''longhorn-system'' ''crd-api-version'') None,
                Log InfoLevel ''Upgrading from v1beta1 to v1beta2'',
                Call (v1beta1_UpgradeCRFromV1beta1ToV1beta2 ''longhorn-system'')
                  (Some (ErrorString ''conversion failed''))]\<rparr>)
   \<and> doAPIVersionUpgrade example_types
      (marker_cluster
         [(Settings_Update ''longhorn-system'' \<lparr>Name = ''crd-api-version'', Value = ''v1beta2''\<rparr>,
           StatusError StatusReasonOther ''conflict'')] (Inr True))
      ''longhorn-system'' (init (Some \<lparr>Name = ''crd-api-version'', Value = ''v1beta1''\<rparr>)) =
     (Some (WithMessage
        (WithMessage (StatusError StatusReasonOther ''conflict'')
           ''cannot finish CRD API upgrade by setting the CRDAPIVersionSetting to v1beta2'')
        ''upgrade API version failed''),
      \<lparr>cluster = Some \<lparr>Name = ''crd-api-version'', Value = ''v1beta1''\<rparr>,
       trace = [Call (Settings_Get ''longhorn-system'' ''crd-api-version'') None,
                Log InfoLevel ''Upgrading from v1beta1 to v1beta2'',
                Call (v1beta1_UpgradeCRFromV1beta1ToV1beta2 ''longhorn-system'') None,
                Call (Settings_Update ''longhorn-system'' \<lparr>Name = ''crd-api-version'', Value = ''v1beta2''\<rparr>)
                  (Some (StatusError StatusReasonOther ''conflict''))]\<rparr>)"
proof -
  let ?L = "\<lparr>Name = ''crd-api-version'', Value = ''v1beta1''\<rparr>"
  let ?C = "\<lparr>Name = ''crd-api-version'', Value = ''v1beta2''\<rparr>"
  let ?convert = "v1beta1_UpgradeCRFromV1beta1ToV1beta2 ''longhorn-system''"
  let ?update = "Settings_Update ''longhorn-system'' ?C"
  let ?E = "marker_cluster [] (Inr True)"
  let ?F = "marker_cluster [(?convert, ErrorString ''conversion failed'')] (Inr True)"
  let ?G = "marker_cluster [(?update, StatusError StatusReasonOther ''conflict'')] (Inr True)"
  let ?before = "[Call (Settings_Get ''longhorn-system'' ''crd-api-version'') None,
                Log InfoLevel ''Upgrading from v1beta1 to v1beta2'']"
  have get: "get_setting (marker_cluster f (Inr True)) ''longhorn-system''
      (SettingNameCRDAPIVersion example_types) (cluster (init (Some ?L))) = Inr ?L" for f
    by (simp add: marker_cluster_def init_def)
  have legacy: "Value ?L = CRDAPIVersionV1beta1 example_types" by (simp add: example_types_def)
  have t1: "CRDAPIVersionV1beta1 example_types \<noteq> ''''" by (simp add: example_types_def)
  have t2: "CRDAPIVersionV1beta1 example_types \<noteq> CRDAPIVersionV1beta2 example_types"
    by (simp add: example_types_def)
  have t3: "CurrentCRDAPIVersion example_types = CRDAPIVersionV1beta2 example_types"
    by (simp add: example_types_def)
  have before: "?before = trace (init (Some ?L) :: (setting option, call) world)
      @ [Call (Settings_Get ''longhorn-system'' (SettingNameCRDAPIVersion example_types)) None,
         Log InfoLevel (''Upgrading from '' @ CRDAPIVersionV1beta1 example_types @ '' to ''
           @ CurrentCRDAPIVersion example_types)]"
    by (simp add: init_def example_types_def)
  have update: "?update = Settings_Update ''longhorn-system'' (?L\<lparr>Value := CurrentCRDAPIVersion example_types\<rparr>)"
    by (simp add: example_types_def)
  have a1: "invoke ?E ?convert (cluster (init (Some ?L))) = (None, Some ?L)"
    by (simp add: marker_cluster_def marker_write_def init_def)
  have a2: "invoke ?E ?update (Some ?L) = (None, Some ?C)"
    by (simp add: marker_cluster_def marker_write_def)
  have b1: "invoke ?F ?convert (cluster (init (Some ?L))) = (Some (ErrorString ''conversion failed''), Some ?L)"
    by (simp add: marker_cluster_def init_def)
  have c1: "invoke ?G ?convert (cluster (init (Some ?L))) = (None, Some ?L)"
    by (simp add: marker_cluster_def marker_write_def init_def)
  have c2: "invoke ?G ?update (Some ?L) = (Some (StatusError StatusReasonOther ''conflict''), Some ?L)"
    by (simp add: marker_cluster_def)
  have a: "doAPIVersionUpgrade example_types ?E ''longhorn-system'' (init (Some ?L)) =
     (None, \<lparr>cluster = Some ?C,
       trace = ?before @ [Call ?convert None, Call ?update None,
         Log InfoLevel (''CRD has been upgraded to '' @ CurrentCRDAPIVersion example_types)]\<rparr>)"
    by (rule legacy_marker_conversion [OF get legacy t1 t2 t3 before refl update,
          THEN conjunct1, rule_format, OF conjI [OF a1 a2]])
  have b: "doAPIVersionUpgrade example_types ?F ''longhorn-system'' (init (Some ?L)) =
     (Some (WithMessage (ErrorString ''conversion failed'') ''upgrade API version failed''),
      \<lparr>cluster = Some ?L, trace = ?before @ [Call ?convert (Some (ErrorString ''conversion failed''))]\<rparr>)"
    by (rule legacy_marker_conversion [OF get legacy t1 t2 t3 before refl update,
          THEN conjunct2, THEN conjunct1, rule_format, OF b1])
  have c: "doAPIVersionUpgrade example_types ?G ''longhorn-system'' (init (Some ?L)) =
     (Some (WithMessage
        (WithMessage (StatusError StatusReasonOther ''conflict'')
           (''cannot finish CRD API upgrade by setting the CRDAPIVersionSetting to ''
              @ CurrentCRDAPIVersion example_types))
        ''upgrade API version failed''),
      \<lparr>cluster = Some ?L,
       trace = ?before @ [Call ?convert None, Call ?update (Some (StatusError StatusReasonOther ''conflict''))]\<rparr>)"
    by (rule legacy_marker_conversion [OF get legacy t1 t2 t3 before refl update,
          THEN conjunct2, THEN conjunct2, rule_format, OF conjI [OF c1 c2]])
  from a b c show ?thesis by (simp add: example_types_def)
qed

text \<open>
  C5. When the marker setting is read with the current tag as its value (the current tag
  being v1beta2), the function logs "No API version upgrade is needed", makes no call
  besides the read, leaves the cluster as it was and returns nil; the leader's run then
  goes on to the custom resource phase, whose first upgrader is the next call.
\<close>

theorem current_marker_is_noop:
  assumes "get_setting ext namespace (SettingNameCRDAPIVersion types) (cluster w) = Inr s"
    and "Value s = CurrentCRDAPIVersion types"
    and "CurrentCRDAPIVersion types = CRDAPIVersionV1beta2 types"
  shows "doAPIVersionUpgrade types ext namespace w =
           (None,
            \<lparr>cluster = cluster w,
             trace = trace w @ [Call (Settings_Get namespace (SettingNameCRDAPIVersion types)) None,
                                Log InfoLevel ''No API version upgrade is needed'']\<rparr>)
       \<and> (\<exists>r rest. trace (snd (OnStartedLeading types ext namespace w)) =
             trace w @ [Log InfoLevel ''Start upgrading'',
                        Call (Settings_Get namespace (SettingNameCRDAPIVersion types)) None,
                        Log InfoLevel ''No API version upgrade is needed'',
                        Call (v070to080_UpgradeCRs namespace) r] @ rest)"
proof -
  have noop: "doAPIVersionUpgrade types ext namespace v =
           (None,
            \<lparr>cluster = cluster v,
             trace = trace v @ [Call (Settings_Get namespace (SettingNameCRDAPIVersion types)) None,
                                Log InfoLevel ''No API version upgrade is needed'']\<rparr>)"
    if "cluster v = cluster w" for v
    using assms that by (simp add: doAPIVersionUpgrade_def doAPIVersionUpgrade_switch_def step_defs)
  let ?w0 = "logrus InfoLevel ''Start upgrading'' w"
  let ?w1 = "\<lparr>cluster = cluster w,
             trace = trace w @ [Log InfoLevel ''Start upgrading'',
                                Call (Settings_Get namespace (SettingNameCRDAPIVersion types)) None,
                                Log InfoLevel ''No API version upgrade is needed'']\<rparr>"
  have "doAPIVersionUpgrade types ext namespace ?w0 = (None, ?w1)"
    using noop [of ?w0] by (simp add: logrus_def)
  from OnStartedLeading_after_version [OF this]
  have started: "OnStartedLeading types ext namespace w =
     (case spec_run_steps ext (spec_chain namespace) ?w1 of
        (Some err, w') \<Rightarrow> (Some err, logrus ErrorLevel (''Upgrade failed: '' @ Error err) w')
      | (None, w') \<Rightarrow> (None, logrus InfoLevel ''Finish upgrading'' w'))" .
  from later_phases_first_call [of ext namespace ?w1]
  obtain r rest where "trace (snd (spec_run_steps ext (spec_chain namespace) ?w1)) =
     trace ?w1 @ [Call (v070to080_UpgradeCRs namespace) r] @ rest" by blast
  then have "\<exists>rest'. trace (snd (OnStartedLeading types ext namespace w)) =
     trace ?w1 @ [Call (v070to080_UpgradeCRs namespace) r] @ rest'"
    unfolding started by (auto simp add: logrus_def split: prod.splits option.splits)
  then have "\<exists>r rest. trace (snd (OnStartedLeading types ext namespace w)) =
             trace w @ [Log InfoLevel ''Start upgrading'',
                        Call (Settings_Get namespace (SettingNameCRDAPIVersion types)) None,
                        Log InfoLevel ''No API version upgrade is needed'',
                        Call (v070to080_UpgradeCRs namespace) r] @ rest"
    by auto
  with noop [of w] show ?thesis by simp
qed

theorem current_marker_is_noop_witness:
  "doAPIVersionUpgrade example_types (marker_cluster [] (Inr True)) ''longhorn-system''
      (init (Some \<lparr>Name = ''crd-api-version'', Value = ''v1beta2''\<rparr>)) =
     (None,
      \<lparr>cluster = Some \<lparr>Name = ''crd-api-version'', Value = ''v1beta2''\<rparr>,
       trace = [Call (Settings_Get ''longhorn-system'' ''crd-api-version'') None,
                Log InfoLevel ''No API version upgrade is needed'']\<rparr>)
   \<and> (\<exists>r rest. trace (snd (OnStartedLeading example_types (marker_cluster [] (Inr True)) ''longhorn-system''
         (init (Some \<lparr>Name = ''crd-api-version'', Value = ''v1beta2''\<rparr>)))) =
             [Log InfoLevel ''Start upgrading'',
              Call (Settings_Get ''longhorn-system'' ''crd-api-version'') None,
              Log InfoLevel ''No API version upgrade is needed'',
              Call (v070to080_UpgradeCRs ''longhorn-system'') r] @ rest)"
proof -
  let ?C = "\<lparr>Name = ''crd-api-version'', Value = ''v1beta2''\<rparr>"
  have h1: "get_setting (marker_cluster [] (Inr True)) ''longhorn-system''
      (SettingNameCRDAPIVersion example_types) (cluster (init (Some ?C))) = Inr ?C"
    by (simp add: marker_cluster_def init_def)
  have h2: "Value ?C = CurrentCRDAPIVersion example_types" by (simp add: example_types_def)
  have h3: "CurrentCRDAPIVersion example_types = CRDAPIVersionV1beta2 example_types"
    by (simp add: example_types_def)
  from current_marker_is_noop [OF h1 h2 h3] show ?thesis
    by (simp add: init_def example_types_def)
qed

section \<open>The error the caller sees\<close>

lemma andThen_return_nil: "andThen f return_nil w = f w"
  by (simp add: andThen_def return_nil_def split: prod.splits option.splits)

lemma phases_all_nil:
  "fst (foldr andThen fs return_nil w) = None \<longleftrightarrow> phase_results fs w = replicate (length fs) None"
  by (induction fs arbitrary: w)
     (auto simp add: andThen_def return_nil_def split: prod.splits option.splits)

lemma phases_first_error:
  "fst (foldr andThen fs return_nil w) = Some e
   \<longleftrightarrow> (\<exists>n<length fs. phase_results fs w = replicate n None @ [Some e])"
proof (induction fs arbitrary: w)
  case Nil
  show ?case by (simp add: return_nil_def)
next
  case (Cons f fs)
  obtain r w' where f: "f w = (r, w')" by (cases "f w")
  show ?case
  proof (cases r)
    case None
    have "(\<exists>n<length (f # fs). None # phase_results fs w' = replicate n None @ [Some e])
        \<longleftrightarrow> (\<exists>m<length fs. phase_results fs w' = replicate m None @ [Some e])"
    proof
      assume "\<exists>n<length (f # fs). None # phase_results fs w' = replicate n None @ [Some e]"
      then obtain n where n: "n < length (f # fs)"
        "None # phase_results fs w' = replicate n None @ [Some e]" by blast
      then obtain m where "n = Suc m" by (cases n) auto
      with n show "\<exists>m<length fs. phase_results fs w' = replicate m None @ [Some e]" by auto
    next
      assume "\<exists>m<length fs. phase_results fs w' = replicate m None @ [Some e]"
      then obtain m where "m < length fs" "phase_results fs w' = replicate m None @ [Some e]" by blast
      then have "Suc m < length (f # fs) \<and> None # phase_results fs w' = replicate (Suc m) None @ [Some e]"
        by simp
      then show "\<exists>n<length (f # fs). None # phase_results fs w' = replicate n None @ [Some e]" by blast
    qed
    with f None Cons.IH [of w'] show ?thesis by (simp add: andThen_def)
  next
    case (Some e')
    have "(\<exists>n<length (f # fs). [Some e'] = replicate n None @ [Some e]) \<longleftrightarrow> e' = e"
    proof
      assume "\<exists>n<length (f # fs). [Some e'] = replicate n None @ [Some e]"
      then obtain n where "[Some e'] = replicate n None @ [Some e]" by blast
      then show "e' = e" by (cases n) auto
    next
      assume "e' = e"
      then have "0 < length (f # fs) \<and> [Some e'] = replicate 0 None @ [Some e]" by simp
      then show "\<exists>n<length (f # fs). [Some e'] = replicate n None @ [Some e]" by blast
    qed
    with f Some show ?thesis by (simp add: andThen_def)
  qed
qed

lemma andThen_return_nil_fun: "andThen f return_nil = f"
  by (rule ext) (simp add: andThen_return_nil)

lemma OnStartedLeading_phases:
  "fst (OnStartedLeading types ext namespace w) =
   fst (foldr andThen (spec_phases types ext namespace) return_nil (logrus InfoLevel ''Start upgrading'' w))"
  by (simp add: spec_phases_def andThen_return_nil_fun OnStartedLeading_def
      split: prod.splits option.splits)

text \<open>
  C9. When the candidate acquires the lease, \<open>upgrade\<close> returns the value that the callback
  \<open>OnStartedLeading\<close> left in \<open>err\<close>. That value is nil exactly when all five phases ran
  and returned nil, and it is an error exactly when that error is the result of the first
  phase that failed, every phase before it having returned nil.
\<close>

theorem upgrade_returns_first_error:
  assumes "acquire_lease ext LeaseLockName namespace currentNodeID (cluster w) = (leaders, Some s)"
    and "elected = fold (OnNewLeader currentNodeID) leaders
           \<lparr>cluster = s,
            trace = trace w @ [Call (leaderelection_RunOrDie LeaseLockName namespace currentNodeID) None]\<rparr>"
    and "results = phase_results (spec_phases types ext namespace) (logrus InfoLevel ''Start upgrading'' elected)"
  shows "\<exists>err. fst (upgrade types ext currentNodeID namespace w) = Returns err
           \<and> err = fst (OnStartedLeading types ext namespace elected)
           \<and> (err = None \<longleftrightarrow> results = [None, None, None, None, None])
           \<and> (\<forall>e. err = Some e \<longleftrightarrow> (\<exists>n<5. results = replicate n None @ [Some e]))"
proof -
  have "fst (upgrade types ext currentNodeID namespace w)
      = Returns (fst (OnStartedLeading types ext namespace elected))"
    using assms(1,2) by (simp add: upgrade_def Let_def split: prod.splits)
  moreover have len: "length (spec_phases types ext namespace) = 5"
    by (simp add: spec_phases_def)
  have five: "replicate 5 None = [None, None, None, None, None :: error option]"
    by (simp add: numeral_eq_Suc)
  have "fst (OnStartedLeading types ext namespace elected) = None
      \<longleftrightarrow> results = [None, None, None, None, None]"
    unfolding OnStartedLeading_phases phases_all_nil assms(3) len five ..
  moreover have "fst (OnStartedLeading types ext namespace elected) = Some e
      \<longleftrightarrow> (\<exists>n<5. results = replicate n None @ [Some e])" for e
    unfolding OnStartedLeading_phases phases_first_error assms(3) len ..
  ultimately show ?thesis by simp
qed

text \<open>
  A leader's run on the small cluster whose marker is current and whose second pod
  upgrader fails: the version and custom resource phases returned nil, the pod phase
  returned the error that \<open>upgrade\<close> returns.
\<close>

theorem upgrade_returns_first_error_witness:
  "acquire_lease (marker_cluster [(v102to110_UpgradePods ''longhorn-system'', ErrorString ''boom'')] (Inr True))
      LeaseLockName ''longhorn-system'' ''node-1''
      (Some \<lparr>Name = ''crd-api-version'', Value = ''v1beta2''\<rparr>)
     = ([''node-1''], Some (Some \<lparr>Name = ''crd-api-version'', Value = ''v1beta2''\<rparr>))
   \<and> fst (upgrade example_types
        (marker_cluster [(v102to110_UpgradePods ''longhorn-system'', ErrorString ''boom'')] (Inr True))
        ''node-1'' ''longhorn-system'' (init (Some \<lparr>Name = ''crd-api-version'', Value = ''v1beta2''\<rparr>)))
     = Returns (Some (WithMessage (ErrorString ''boom'') ''upgrade Pods failed''))
   \<and> (\<exists>n<5. phase_results
         (spec_phases example_types
            (marker_cluster [(v102to110_UpgradePods ''longhorn-system'', ErrorString ''boom'')] (Inr True))
            ''longhorn-system'')
         (logrus InfoLevel ''Start upgrading''
            (fold (OnNewLeader ''node-1'') [''node-1'']
               \<lparr>cluster = Some \<lparr>Name = ''crd-api-version'', Value = ''v1beta2''\<rparr>,
                trace = [Call (leaderelection_RunOrDie LeaseLockName ''longhorn-system'' ''node-1'') None]\<rparr>))
       = replicate n None @ [Some (WithMessage (ErrorString ''boom'') ''upgrade Pods failed'')])"
proof -
  let ?E = "marker_cluster [(v102to110_UpgradePods ''longhorn-system'', ErrorString ''boom'')] (Inr True)"
  let ?M = "Some \<lparr>Name = ''crd-api-version'', Value = ''v1beta2''\<rparr>"
  let ?w = "init ?M :: (setting option, call) world"
  let ?elected = "fold (OnNewLeader ''node-1'') [''node-1'']
     \<lparr>cluster = ?M,
      trace = trace ?w @ [Call (leaderelection_RunOrDie LeaseLockName ''longhorn-system'' ''node-1'') None]\<rparr>"
  have h: "acquire_lease ?E LeaseLockName ''longhorn-system'' ''node-1'' (cluster ?w) = ([''node-1''], Some ?M)"
    by (simp add: marker_cluster_def init_def)
  have run: "fst (OnStartedLeading example_types ?E ''longhorn-system'' ?elected)
      = Some (WithMessage (ErrorString ''boom'') ''upgrade Pods failed'')"
    by (simp add: run_defs OnNewLeader_def)
  from upgrade_returns_first_error [OF h refl refl, of example_types]
  obtain err where err: "fst (upgrade example_types ?E ''node-1'' ''longhorn-system'' ?w) = Returns err"
    "err = fst (OnStartedLeading example_types ?E ''longhorn-system'' ?elected)"
    "\<forall>e. err = Some e \<longleftrightarrow>
       (\<exists>n<5. phase_results (spec_phases example_types ?E ''longhorn-system'')
          (logrus InfoLevel ''Start upgrading'' ?elected) = replicate n None @ [Some e])"
    by blast
  from err(2) run have val: "err = Some (WithMessage (ErrorString ''boom'') ''upgrade Pods failed'')"
    by simp
  note first = err(3) [THEN spec, THEN iffD1, OF val]
  from err(1) val first h show ?thesis by (simp add: init_def)
qed

section \<open>The local node step and the gate\<close>

lemma emitsI: "(\<And>w. \<exists>evs. trace (snd (f w)) = trace w @ evs \<and> list_all P evs) \<Longrightarrow> emits P f"
  by (simp add: emits_def)

lemma emitsD: "emits P f \<Longrightarrow> \<exists>evs. trace (snd (f w)) = trace w @ evs \<and> list_all P evs"
  by (simp add: emits_def)

lemma emits_perform: "(\<And>r. P (Call c r)) \<Longrightarrow> emits P (perform run c)"
  by (rule emitsI) (simp add: perform_def split: prod.splits)

lemma emits_exec: "(\<And>r. P (Call c r)) \<Longrightarrow> emits P (exec ext c)"
  by (rule emitsI) (simp add: exec_def perform_def split: prod.splits)

lemma emits_return_nil: "emits P return_nil"
  by (rule emitsI) (simp add: return_nil_def)

lemma emits_andThen:
  assumes "emits P f" and "emits P g"
  shows "emits P (andThen f g)"
proof (rule emitsI)
  fix w
  obtain r w1 where f: "f w = (r, w1)" by (cases "f w")
  from emitsD [OF assms(1), of w] f obtain xs where xs: "trace w1 = trace w @ xs" "list_all P xs"
    by auto
  show "\<exists>evs. trace (snd (andThen f g w)) = trace w @ evs \<and> list_all P evs"
  proof (cases r)
    case None
    from emitsD [OF assms(2), of w1] obtain ys where "trace (snd (g w1)) = trace w1 @ ys" "list_all P ys"
      by auto
    with xs have "trace (snd (g w1)) = trace w @ (xs @ ys) \<and> list_all P (xs @ ys)" by simp
    with f None show ?thesis unfolding andThen_def by auto
  next
    case (Some e)
    with f xs show ?thesis by (auto simp add: andThen_def)
  qed
qed

lemma emits_deferred_Wrap:
  assumes "emits P f"
  shows "emits P (deferred_Wrap message f)"
proof (rule emitsI)
  fix w
  obtain r w1 where f: "f w = (r, w1)" by (cases "f w")
  with emitsD [OF assms, of w]
  show "\<exists>evs. trace (snd (deferred_Wrap message f w)) = trace w @ evs \<and> list_all P evs"
    by (simp add: deferred_Wrap_def)
qed

lemma emits_switch:
  assumes "\<And>l m. P (Log l m)" and "\<And>c r. version_call types namespace c \<Longrightarrow> P (Call c r)"
  shows "emits P (doAPIVersionUpgrade_switch types ext namespace st v)"
proof (rule emitsI)
  fix w :: "('a, call) world"
  let ?goal = "\<exists>evs. trace (snd (doAPIVersionUpgrade_switch types ext namespace st v w)) = trace w @ evs
      \<and> list_all P evs"
  have probe: "P (Call (v1beta1_CanUpgrade namespace) r)" for r
    by (rule assms(2)) (simp add: version_call_def)
  have create: "P (Call (Settings_Create namespace
      \<lparr>Name = SettingNameCRDAPIVersion types, Value = CurrentCRDAPIVersion types\<rparr>) r)" for r
    by (rule assms(2)) (simp add: version_call_def)
  have convert: "P (Call (v1beta1_UpgradeCRFromV1beta1ToV1beta2 namespace) r)" for r
    by (rule assms(2)) (simp add: version_call_def)
  have update: "P (Call (Settings_Update namespace (st\<lparr>Value := CRDAPIVersionV1beta2 types\<rparr>)) r)" for r
    by (rule assms(2)) (auto simp add: version_call_def)
  note calls = assms(1) probe create convert update
  consider (unrecognized) "v \<noteq> ''''" "v \<noteq> CRDAPIVersionV1beta1 types" "v \<noteq> CRDAPIVersionV1beta2 types"
    | (current) "\<not> (v \<noteq> '''' \<and> v \<noteq> CRDAPIVersionV1beta1 types \<and> v \<noteq> CRDAPIVersionV1beta2 types)"
        "v = CurrentCRDAPIVersion types"
    | (fresh) "v \<noteq> CurrentCRDAPIVersion types" "v = ''''"
    | (legacy) "v \<noteq> CurrentCRDAPIVersion types" "v \<noteq> ''''" "v = CRDAPIVersionV1beta1 types"
    | (other) "\<not> (v \<noteq> '''' \<and> v \<noteq> CRDAPIVersionV1beta1 types \<and> v \<noteq> CRDAPIVersionV1beta2 types)"
        "v \<noteq> CurrentCRDAPIVersion types" "v \<noteq> ''''" "v \<noteq> CRDAPIVersionV1beta1 types"
    by blast
  then show ?goal
  proof cases
    case unrecognized
    then show ?thesis by (simp add: doAPIVersionUpgrade_switch_def)
  next
    case current
    then show ?thesis by (simp add: doAPIVersionUpgrade_switch_def logrus_def calls)
  next
    case fresh
    then have eq: "doAPIVersionUpgrade_switch types ext namespace st v w =
        (case exec_CanUpgrade ext namespace w of
           (Inl err, w1) \<Rightarrow> (Some err, w1)
         | (Inr upgradable, w1) \<Rightarrow>
             if upgradable then
               (case exec ext (Settings_Create namespace
                        \<lparr>Name = SettingNameCRDAPIVersion types, Value = CurrentCRDAPIVersion types\<rparr>) w1 of
                  (err, w2) \<Rightarrow>
                    if (case err of None \<Rightarrow> False | Some e \<Rightarrow> \<not> IsAlreadyExists e)
                    then (Wrap err ''cannot create CRDAPIVersionSetting'', w2)
                    else (None, logrus InfoLevel (''New '' @ CurrentCRDAPIVersion types @ '' installation'') w2))
             else (None, w1))"
      by (simp add: doAPIVersionUpgrade_switch_def)
    show ?thesis unfolding eq
      by (auto simp add: exec_def perform_def exec_CanUpgrade_def logrus_def calls
          split: prod.splits sum.splits option.splits)
  next
    case legacy
    then have eq: "doAPIVersionUpgrade_switch types ext namespace st v w =
        (let w1 = logrus InfoLevel (''Upgrading from '' @ CRDAPIVersionV1beta1 types @ '' to ''
                      @ CurrentCRDAPIVersion types) w
         in case exec ext (v1beta1_UpgradeCRFromV1beta1ToV1beta2 namespace) w1 of
              (Some err, w2) \<Rightarrow> (Some err, w2)
            | (None, w2) \<Rightarrow>
                (let crdAPIVersionSetting' = st\<lparr>Value := CRDAPIVersionV1beta2 types\<rparr>
                 in case exec ext (Settings_Update namespace crdAPIVersionSetting') w2 of
                      (Some err, w3) \<Rightarrow>
                        (Wrap (Some err) (''cannot finish CRD API upgrade by setting the CRDAPIVersionSetting to ''
                            @ CurrentCRDAPIVersion types), w3)
                    | (None, w3) \<Rightarrow>
                        (None, logrus InfoLevel (''CRD has been upgraded to '' @ Value crdAPIVersionSetting') w3)))"
      by (simp add: doAPIVersionUpgrade_switch_def)
    show ?thesis unfolding eq
      by (auto simp add: exec_def perform_def logrus_def calls Let_def
          split: prod.splits option.splits)
  next
    case other
    then show ?thesis by (simp add: doAPIVersionUpgrade_switch_def)
  qed
qed

lemma emits_doAPIVersionUpgrade:
  assumes "\<And>l m. P (Log l m)" and "\<And>c r. version_call types namespace c \<Longrightarrow> P (Call c r)"
  shows "emits P (doAPIVersionUpgrade types ext namespace)"
proof (rule emitsI)
  fix w :: "('a, call) world"
  let ?get = "Call (Settings_Get namespace (SettingNameCRDAPIVersion types))
      (err_of (get_setting ext namespace (SettingNameCRDAPIVersion types) (cluster w)))"
  let ?w1 = "w\<lparr>trace := trace w @ [?get]\<rparr>"
  have get: "P ?get" by (rule assms(2)) (simp add: version_call_def)
  have sw: "\<exists>evs. trace (snd (doAPIVersionUpgrade_switch types ext namespace st v ?w1))
      = trace w @ evs \<and> list_all P evs" for st v
  proof -
    have "\<exists>xs. trace (snd (doAPIVersionUpgrade_switch types ext namespace st v ?w1)) = trace ?w1 @ xs
        \<and> list_all P xs"
      by (rule emitsD [OF emits_switch [OF assms]])
    then obtain xs where "trace (snd (doAPIVersionUpgrade_switch types ext namespace st v ?w1))
      = trace ?w1 @ xs" "list_all P xs" by blast
    with get have "trace (snd (doAPIVersionUpgrade_switch types ext namespace st v ?w1))
      = trace w @ (?get # xs) \<and> list_all P (?get # xs)"
      by simp
    then show ?thesis by blast
  qed
  show "\<exists>evs. trace (snd (doAPIVersionUpgrade types ext namespace w)) = trace w @ evs \<and> list_all P evs"
  proof (cases "get_setting ext namespace (SettingNameCRDAPIVersion types) (cluster w)")
    case (Inl e)
    show ?thesis
    proof (cases "IsNotFound e")
      case True
      with Inl have eq: "snd (doAPIVersionUpgrade types ext namespace w) =
          snd (doAPIVersionUpgrade_switch types ext namespace \<lparr>Name = '''', Value = ''''\<rparr> '''' ?w1)"
        by (simp add: doAPIVersionUpgrade_def exec_Get_def Let_def case_prod_unfold)
      show ?thesis unfolding eq by (rule sw)
    next
      case False
      with Inl have "trace (snd (doAPIVersionUpgrade types ext namespace w)) = trace w @ [?get]
          \<and> list_all P [?get]"
        using get by (simp add: doAPIVersionUpgrade_def exec_Get_def Let_def)
      then show ?thesis by blast
    qed
  next
    case (Inr st)
    then have eq: "snd (doAPIVersionUpgrade types ext namespace w) =
          snd (doAPIVersionUpgrade_switch types ext namespace st (Value st) ?w1)"
      by (simp add: doAPIVersionUpgrade_def exec_Get_def Let_def case_prod_unfold)
    show ?thesis unfolding eq by (rule sw)
  qed
qed

lemma emits_OnStartedLeading:
  assumes "\<And>l m. P (Log l m)" and "\<And>c r. leader_call types namespace c \<Longrightarrow> P (Call c r)"
  shows "emits P (OnStartedLeading types ext namespace)"
proof -
  have version: "P (Call c r)" if "version_call types namespace c" for c r
    using that by (intro assms(2)) (simp add: leader_call_def)
  have step: "P (Call c r)" if "c \<in> snd ` set (spec_chain namespace)" for c r
    using that by (intro assms(2)) (simp add: leader_call_def)
  have chain: "emits P (andThen (doAPIVersionUpgrade types ext namespace)
          (andThen (doCRUpgrade ext namespace)
          (andThen (doPodsUpgrade ext namespace)
          (andThen (doServicesUpgrade ext namespace)
                   (doDeploymentAndDaemonSetUpgrade ext namespace)))))"
    unfolding doCRUpgrade_def doPodsUpgrade_def doServicesUpgrade_def doDeploymentAndDaemonSetUpgrade_def
    by (intro emits_andThen emits_doAPIVersionUpgrade emits_deferred_Wrap emits_exec emits_return_nil
          assms(1))
       (simp_all add: version step spec_chain_def)
  show ?thesis
  proof (rule emitsI)
    fix w :: "('a, call) world"
    let ?w0 = "logrus InfoLevel ''Start upgrading'' w"
    obtain r w1 where run: "andThen (doAPIVersionUpgrade types ext namespace)
          (andThen (doCRUpgrade ext namespace)
          (andThen (doPodsUpgrade ext namespace)
          (andThen (doServicesUpgrade ext namespace)
                   (doDeploymentAndDaemonSetUpgrade ext namespace)))) ?w0 = (r, w1)"
      by (cases "andThen (doAPIVersionUpgrade types ext namespace)
          (andThen (doCRUpgrade ext namespace)
          (andThen (doPodsUpgrade ext namespace)
          (andThen (doServicesUpgrade ext namespace)
                   (doDeploymentAndDaemonSetUpgrade ext namespace)))) ?w0")
    from emitsD [OF chain, of ?w0] run obtain xs where xs: "trace w1 = trace ?w0 @ xs" "list_all P xs"
      by auto
    obtain final where final: "trace (snd (OnStartedLeading types ext namespace w)) = trace w1 @ [final]"
      "P final"
      using run by (cases r) (simp_all add: OnStartedLeading_def logrus_def assms(1))
    from xs final have "trace (snd (OnStartedLeading types ext namespace w))
        = trace w @ (Log InfoLevel ''Start upgrading'' # xs @ [final])
      \<and> list_all P (Log InfoLevel ''Start upgrading'' # xs @ [final])"
      by (simp add: logrus_def assms(1))
    then show "\<exists>evs. trace (snd (OnStartedLeading types ext namespace w)) = trace w @ evs \<and> list_all P evs"
      by blast
  qed
qed









section \<open>Deploying and cleaning up the attacher and the provisioner\<close>

lemmas task_defs = task_finish_def perform_def logrus_def task_events_def task_warning_def

lemma Wait_Done_Done: "RunAsync_Wait run schedule Done Done w = w"
  by (induction schedule) (simp_all add: task_finish_def)

lemma Wait_Failing_Done:
  "RunAsync_Wait run schedule (Failing m) Done w = logrus WarnLevel m w"
  by (cases schedule) (simp_all add: task_finish_def Wait_Done_Done)

lemma Wait_Done_Failing:
  "RunAsync_Wait run schedule Done (Failing m) w = logrus WarnLevel m w"
  by (cases schedule) (simp_all add: task_finish_def Wait_Done_Done)

lemma Wait_Ready_Done:
  "RunAsync_Wait run schedule (Ready c m) Done w =
     (case run c (cluster w) of
        (r, s) \<Rightarrow> \<lparr>cluster = s, trace = trace w @ Call c r # task_warning m r\<rparr>)"
  by (cases schedule)
     (simp_all add: task_defs Wait_Done_Done Wait_Failing_Done split: prod.splits option.splits)

lemma Wait_Done_Ready:
  "RunAsync_Wait run schedule Done (Ready c m) w =
     (case run c (cluster w) of
        (r, s) \<Rightarrow> \<lparr>cluster = s, trace = trace w @ Call c r # task_warning m r\<rparr>)"
  by (cases schedule)
     (simp_all add: task_defs Wait_Done_Done Wait_Done_Failing split: prod.splits option.splits)

lemma Wait_Failing_Failing:
  "RunAsync_Wait run schedule (Failing m1) (Failing m2) w
     \<in> {\<lparr>cluster = cluster w, trace = trace w @ [Log WarnLevel m1, Log WarnLevel m2]\<rparr>,
         \<lparr>cluster = cluster w, trace = trace w @ [Log WarnLevel m2, Log WarnLevel m1]\<rparr>}"
proof (cases schedule)
  case Nil
  then show ?thesis by (simp add: task_defs)
next
  case (Cons first rest)
  then show ?thesis
    by (cases first) (simp_all add: task_defs Wait_Done_Failing Wait_Failing_Done)
qed

lemma Wait_Failing_Ready:
  assumes "run c2 (cluster w) = (r2, s2)"
  shows "RunAsync_Wait run schedule (Failing m1) (Ready c2 m2) w
     \<in> {\<lparr>cluster = s2, trace = trace w @ Log WarnLevel m1 # Call c2 r2 # task_warning m2 r2\<rparr>,
         \<lparr>cluster = s2, trace = trace w @ Call c2 r2 # Log WarnLevel m1 # task_warning m2 r2\<rparr>,
         \<lparr>cluster = s2, trace = trace w @ Call c2 r2 # task_warning m2 r2 @ [Log WarnLevel m1]\<rparr>}"
proof (cases schedule)
  case Nil
  with assms show ?thesis by (simp add: task_defs split: option.splits)
next
  case (Cons first rest)
  show ?thesis
  proof (cases first)
    case True
    with Cons assms show ?thesis by (simp add: task_defs Wait_Done_Ready)
  next
    case False
    show ?thesis
    proof (cases r2)
      case None
      with False Cons assms show ?thesis by (simp add: task_defs Wait_Failing_Done)
    next
      case (Some err)
      let ?w' = "\<lparr>cluster = s2, trace = trace w @ [Call c2 (Some err)]\<rparr>"
      from Some False Cons assms
      have "RunAsync_Wait run schedule (Failing m1) (Ready c2 m2) w
          = RunAsync_Wait run rest (Failing m1) (Failing (m2 @ Error err)) ?w'"
        by (simp add: task_defs)
      with Wait_Failing_Failing [of run rest m1 "m2 @ Error err" ?w'] Some
      show ?thesis by (auto simp add: task_defs)
    qed
  qed
qed

lemma Wait_Ready_Failing:
  assumes "run c1 (cluster w) = (r1, s1)"
  shows "RunAsync_Wait run schedule (Ready c1 m1) (Failing m2) w
     \<in> {\<lparr>cluster = s1, trace = trace w @ Log WarnLevel m2 # Call c1 r1 # task_warning m1 r1\<rparr>,
         \<lparr>cluster = s1, trace = trace w @ Call c1 r1 # Log WarnLevel m2 # task_warning m1 r1\<rparr>,
         \<lparr>cluster = s1, trace = trace w @ Call c1 r1 # task_warning m1 r1 @ [Log WarnLevel m2]\<rparr>}"
proof (cases schedule)
  case Nil
  with assms show ?thesis by (simp add: task_defs split: option.splits)
next
  case (Cons first rest)
  show ?thesis
  proof (cases first)
    case False
    with Cons assms show ?thesis by (simp add: task_defs Wait_Ready_Done)
  next
    case True
    show ?thesis
    proof (cases r1)
      case None
      with True Cons assms show ?thesis by (simp add: task_defs Wait_Done_Failing)
    next
      case (Some err)
      let ?w' = "\<lparr>cluster = s1, trace = trace w @ [Call c1 (Some err)]\<rparr>"
      from Some True Cons assms
      have "RunAsync_Wait run schedule (Ready c1 m1) (Failing m2) w
          = RunAsync_Wait run rest (Failing (m1 @ Error err)) (Failing m2) ?w'"
        by (simp add: task_defs)
      with Wait_Failing_Failing [of run rest "m1 @ Error err" m2 ?w'] Some
      show ?thesis by (auto simp add: task_defs)
    qed
  qed
qed

lemma cleanup_runs_explicit:
  assumes "run c1 (cluster w) = (r1, s1)" and "run c2 s1 = (r2, s2)"
  shows "cleanup_runs run c1 m1 c2 m2 w =
     {\<lparr>cluster = s2, trace = trace w @ Call c1 r1 # task_warning m1 r1 @ Call c2 r2 # task_warning m2 r2\<rparr>,
      \<lparr>cluster = s2, trace = trace w @ Call c1 r1 # Call c2 r2 # task_warning m1 r1 @ task_warning m2 r2\<rparr>,
      \<lparr>cluster = s2, trace = trace w @ Call c1 r1 # Call c2 r2 # task_warning m2 r2 @ task_warning m1 r1\<rparr>}"
  using assms
  by (cases r1; cases r2) (auto simp add: cleanup_runs_def task_events_def task_warning_def)

lemma Wait_Ready_Ready:
  "RunAsync_Wait run schedule (Ready c1 m1) (Ready c2 m2) w
     \<in> cleanup_runs run c1 m1 c2 m2 w \<union> cleanup_runs run c2 m2 c1 m1 w"
proof -
  obtain r1 s1 where one: "run c1 (cluster w) = (r1, s1)" by (cases "run c1 (cluster w)")
  obtain r2 s2 where two: "run c2 s1 = (r2, s2)" by (cases "run c2 s1")
  obtain q2 u2 where two': "run c2 (cluster w) = (q2, u2)" by (cases "run c2 (cluster w)")
  obtain q1 u1 where one': "run c1 u2 = (q1, u1)" by (cases "run c1 u2")
  note sets = cleanup_runs_explicit [OF one two] cleanup_runs_explicit [OF two' one']
  show ?thesis
  proof (cases schedule)
    case Nil
    with one two show ?thesis
      unfolding sets by (simp add: task_defs split: option.splits)
  next
    case (Cons first rest)
    show ?thesis
    proof (cases first)
      case True
      show ?thesis
      proof (cases r1)
        case None
        with True Cons one two show ?thesis
          unfolding sets by (simp add: task_defs Wait_Done_Ready)
      next
        case (Some err)
        let ?w' = "\<lparr>cluster = s1, trace = trace w @ [Call c1 (Some err)]\<rparr>"
        from Some True Cons one
        have "RunAsync_Wait run schedule (Ready c1 m1) (Ready c2 m2) w
            = RunAsync_Wait run rest (Failing (m1 @ Error err)) (Ready c2 m2) ?w'"
          by (simp add: task_defs)
        moreover have "RunAsync_Wait run rest (Failing (m1 @ Error err)) (Ready c2 m2) ?w'
          \<in> {\<lparr>cluster = s2,
                trace = trace ?w' @ Log WarnLevel (m1 @ Error err) # Call c2 r2 # task_warning m2 r2\<rparr>,
              \<lparr>cluster = s2,
                trace = trace ?w' @ Call c2 r2 # Log WarnLevel (m1 @ Error err) # task_warning m2 r2\<rparr>,
              \<lparr>cluster = s2,
                trace = trace ?w' @ Call c2 r2 # task_warning m2 r2 @ [Log WarnLevel (m1 @ Error err)]\<rparr>}"
          by (rule Wait_Failing_Ready) (simp add: two)
        ultimately show ?thesis
          unfolding sets using Some by (auto simp add: task_defs)
      qed
    next
      case False
      show ?thesis
      proof (cases q2)
        case None
        with False Cons one' two' show ?thesis
          unfolding sets by (simp add: task_defs Wait_Ready_Done)
      next
        case (Some err)
        let ?w' = "\<lparr>cluster = u2, trace = trace w @ [Call c2 (Some err)]\<rparr>"
        from Some False Cons two'
        have "RunAsync_Wait run schedule (Ready c1 m1) (Ready c2 m2) w
            = RunAsync_Wait run rest (Ready c1 m1) (Failing (m2 @ Error err)) ?w'"
          by (simp add: task_defs)
        moreover have "RunAsync_Wait run rest (Ready c1 m1) (Failing (m2 @ Error err)) ?w'
          \<in> {\<lparr>cluster = u1,
                trace = trace ?w' @ Log WarnLevel (m2 @ Error err) # Call c1 q1 # task_warning m1 q1\<rparr>,
              \<lparr>cluster = u1,
                trace = trace ?w' @ Call c1 q1 # Log WarnLevel (m2 @ Error err) # task_warning m1 q1\<rparr>,
              \<lparr>cluster = u1,
                trace = trace ?w' @ Call c1 q1 # task_warning m1 q1 @ [Log WarnLevel (m2 @ Error err)]\<rparr>}"
          by (rule Wait_Ready_Failing) (simp add: one')
        ultimately show ?thesis
          unfolding sets using Some by (auto simp add: task_defs)
      qed
    qed
  qed
qed

lemma cleanup_runs_first_reached:
  assumes "w' \<in> cleanup_runs run c1 m1 c2 m2 w"
  shows "\<exists>schedule. RunAsync_Wait run schedule (Ready c1 m1) (Ready c2 m2) w = w'"
proof -
  obtain r1 s1 where one: "run c1 (cluster w) = (r1, s1)" by (cases "run c1 (cluster w)")
  obtain r2 s2 where two: "run c2 s1 = (r2, s2)" by (cases "run c2 s1")
  have a: "RunAsync_Wait run [True, True] (Ready c1 m1) (Ready c2 m2) w =
      \<lparr>cluster = s2, trace = trace w @ Call c1 r1 # task_warning m1 r1 @ Call c2 r2 # task_warning m2 r2\<rparr>"
    using one two by (simp add: task_defs split: option.splits)
  have b: "RunAsync_Wait run [True, False, True] (Ready c1 m1) (Ready c2 m2) w =
      \<lparr>cluster = s2, trace = trace w @ Call c1 r1 # Call c2 r2 # task_warning m1 r1 @ task_warning m2 r2\<rparr>"
    using one two by (simp add: task_defs split: option.splits)
  have c: "RunAsync_Wait run [True, False, False] (Ready c1 m1) (Ready c2 m2) w =
      \<lparr>cluster = s2, trace = trace w @ Call c1 r1 # Call c2 r2 # task_warning m2 r2 @ task_warning m1 r1\<rparr>"
    using one two by (simp add: task_defs split: option.splits)
  from assms consider
      "w' = RunAsync_Wait run [True, True] (Ready c1 m1) (Ready c2 m2) w"
    | "w' = RunAsync_Wait run [True, False, True] (Ready c1 m1) (Ready c2 m2) w"
    | "w' = RunAsync_Wait run [True, False, False] (Ready c1 m1) (Ready c2 m2) w"
    unfolding cleanup_runs_explicit [OF one two] a b c by blast
  then show ?thesis by (cases; blast)
qed

lemma cleanup_runs_second_reached:
  assumes "w' \<in> cleanup_runs run c2 m2 c1 m1 w"
  shows "\<exists>schedule. RunAsync_Wait run schedule (Ready c1 m1) (Ready c2 m2) w = w'"
proof -
  obtain r2 s2 where two: "run c2 (cluster w) = (r2, s2)" by (cases "run c2 (cluster w)")
  obtain r1 s1 where one: "run c1 s2 = (r1, s1)" by (cases "run c1 s2")
  have a: "RunAsync_Wait run [False, False] (Ready c1 m1) (Ready c2 m2) w =
      \<lparr>cluster = s1, trace = trace w @ Call c2 r2 # task_warning m2 r2 @ Call c1 r1 # task_warning m1 r1\<rparr>"
    using one two by (simp add: task_defs split: option.splits)
  have b: "RunAsync_Wait run [False, True, False] (Ready c1 m1) (Ready c2 m2) w =
      \<lparr>cluster = s1, trace = trace w @ Call c2 r2 # Call c1 r1 # task_warning m2 r2 @ task_warning m1 r1\<rparr>"
    using one two by (simp add: task_defs split: option.splits)
  have c: "RunAsync_Wait run [False, True, True] (Ready c1 m1) (Ready c2 m2) w =
      \<lparr>cluster = s1, trace = trace w @ Call c2 r2 # Call c1 r1 # task_warning m1 r1 @ task_warning m2 r2\<rparr>"
    using one two by (simp add: task_defs split: option.splits)
  from assms consider
      "w' = RunAsync_Wait run [False, False] (Ready c1 m1) (Ready c2 m2) w"
    | "w' = RunAsync_Wait run [False, True, False] (Ready c1 m1) (Ready c2 m2) w"
    | "w' = RunAsync_Wait run [False, True, True] (Ready c1 m1) (Ready c2 m2) w"
    unfolding cleanup_runs_explicit [OF two one] a b c by blast
  then show ?thesis by (cases; blast)
qed

lemma Cleanup_runs:
  "range (\<lambda>schedule. RunAsync_Wait run schedule (Ready c1 m1) (Ready c2 m2) w)
     = cleanup_runs run c1 m1 c2 m2 w \<union> cleanup_runs run c2 m2 c1 m1 w"
proof (rule equalityI; rule subsetI)
  fix w'
  assume "w' \<in> range (\<lambda>schedule. RunAsync_Wait run schedule (Ready c1 m1) (Ready c2 m2) w)"
  then obtain schedule where "w' = RunAsync_Wait run schedule (Ready c1 m1) (Ready c2 m2) w" by blast
  with Wait_Ready_Ready [of run schedule c1 m1 c2 m2 w]
  show "w' \<in> cleanup_runs run c1 m1 c2 m2 w \<union> cleanup_runs run c2 m2 c1 m1 w" by simp
next
  fix w'
  assume "w' \<in> cleanup_runs run c1 m1 c2 m2 w \<union> cleanup_runs run c2 m2 c1 m1 w"
  then have "\<exists>schedule. RunAsync_Wait run schedule (Ready c1 m1) (Ready c2 m2) w = w'"
    using cleanup_runs_first_reached cleanup_runs_second_reached by blast
  then obtain schedule where "RunAsync_Wait run schedule (Ready c1 m1) (Ready c2 m2) w = w'" ..
  then show "w' \<in> range (\<lambda>schedule. RunAsync_Wait run schedule (Ready c1 m1) (Ready c2 m2) w)"
    by (rule range_eqI [OF sym])
qed

lemma Deploy_two:
  "andThen (perform run c1) (perform run c2) w =
     (case run c1 (cluster w) of
        (Some err, s1) \<Rightarrow> (Some err, \<lparr>cluster = s1, trace = trace w @ [Call c1 (Some err)]\<rparr>)
      | (None, s1) \<Rightarrow>
          (case run c2 s1 of
             (r, s2) \<Rightarrow> (r, \<lparr>cluster = s2, trace = trace w @ [Call c1 None, Call c2 r]\<rparr>)))"
  by (simp add: andThen_def perform_def split: prod.splits option.splits)

text \<open>
  C8. \<open>Deploy\<close> of the attacher and of the provisioner reconciles the service first; when
  that fails it returns the error at once, having called nothing else, so the cluster is as
  the failed call left it; otherwise it reconciles the deployment, on the cluster the
  service call left, and returns its result. \<open>Cleanup\<close> has no error result. It runs the
  cleanup of the service and the cleanup of the deployment as two tasks with no order
  between them: over all schedules, what \<open>Cleanup\<close> leaves is exactly a run in which the
  service cleanup is called first or a run in which the deployment cleanup is called first.
  In each run both cleanups have been called when \<open>Cleanup\<close> returns, the second on the
  cluster the first left whether the first failed or not, the cluster is the one the second
  call left, and a task logs a warning when, and only when, its call failed.
\<close>

theorem deploy_fail_fast_cleanup_best_effort:
  "AttacherDeployment_Deploy run a w =
     (case run (deploy (AttacherDeployment.service a) ''service''
                  serviceCreateFunc serviceDeleteFunc serviceGetFunc) (cluster w) of
        (Some err, s1) \<Rightarrow>
          (Some err,
           \<lparr>cluster = s1,
            trace = trace w @ [Call (deploy (AttacherDeployment.service a) ''service''
                                 serviceCreateFunc serviceDeleteFunc serviceGetFunc) (Some err)]\<rparr>)
      | (None, s1) \<Rightarrow>
          (case run (deploy (AttacherDeployment.deployment a) ''deployment''
                       deploymentCreateFunc deploymentDeleteFunc deploymentGetFunc) s1 of
             (r, s2) \<Rightarrow>
               (r, \<lparr>cluster = s2,
                    trace = trace w @ [Call (deploy (AttacherDeployment.service a) ''service''
                                 serviceCreateFunc serviceDeleteFunc serviceGetFunc) None,
                              Call (deploy (AttacherDeployment.deployment a) ''deployment''
                                 deploymentCreateFunc deploymentDeleteFunc deploymentGetFunc) r]\<rparr>)))
   \<and> ProvisionerDeployment_Deploy run p w =
     (case run (deploy (ProvisionerDeployment.service p) ''service''
                  serviceCreateFunc serviceDeleteFunc serviceGetFunc) (cluster w) of
        (Some err, s1) \<Rightarrow>
          (Some err,
           \<lparr>cluster = s1,
            trace = trace w @ [Call (deploy (ProvisionerDeployment.service p) ''service''
                                 serviceCreateFunc serviceDeleteFunc serviceGetFunc) (Some err)]\<rparr>)
      | (None, s1) \<Rightarrow>
          (case run (deploy (ProvisionerDeployment.deployment p) ''deployment''
                       deploymentCreateFunc deploymentDeleteFunc deploymentGetFunc) s1 of
             (r, s2) \<Rightarrow>
               (r, \<lparr>cluster = s2,
                    trace = trace w @ [Call (deploy (ProvisionerDeployment.service p) ''service''
                                 serviceCreateFunc serviceDeleteFunc serviceGetFunc) None,
                              Call (deploy (ProvisionerDeployment.deployment p) ''deployment''
                                 deploymentCreateFunc deploymentDeleteFunc deploymentGetFunc) r]\<rparr>)))
   \<and> range (\<lambda>schedule. AttacherDeployment_Cleanup run schedule a w) =
       cleanup_runs run
         (cleanup (AttacherDeployment.service a) ''service'' serviceDeleteFunc serviceGetFunc)
         ''Failed to cleanup service in attacher deployment: ''
         (cleanup (AttacherDeployment.deployment a) ''deployment'' deploymentDeleteFunc deploymentGetFunc)
         ''Failed to cleanup deployment in attacher deployment: '' w
       \<union> cleanup_runs run
         (cleanup (AttacherDeployment.deployment a) ''deployment'' deploymentDeleteFunc deploymentGetFunc)
         ''Failed to cleanup deployment in attacher deployment: ''
         (cleanup (AttacherDeployment.service a) ''service'' serviceDeleteFunc serviceGetFunc)
         ''Failed to cleanup service in attacher deployment: '' w
   \<and> range (\<lambda>schedule. ProvisionerDeployment_Cleanup run schedule p w) =
       cleanup_runs run
         (cleanup (ProvisionerDeployment.service p) ''service'' serviceDeleteFunc serviceGetFunc)
         ''Failed to cleanup service in provisioner deployment: ''
         (cleanup (ProvisionerDeployment.deployment p) ''deployment'' deploymentDeleteFunc deploymentGetFunc)
         ''Failed to cleanup deployment in provisioner deployment: '' w
       \<union> cleanup_runs run
         (cleanup (ProvisionerDeployment.deployment p) ''deployment'' deploymentDeleteFunc deploymentGetFunc)
         ''Failed to cleanup deployment in provisioner deployment: ''
         (cleanup (ProvisionerDeployment.service p) ''service'' serviceDeleteFunc serviceGetFunc)
         ''Failed to cleanup service in provisioner deployment: '' w"
  unfolding AttacherDeployment_Deploy_def ProvisionerDeployment_Deploy_def
    AttacherDeployment_Cleanup_def ProvisionerDeployment_Cleanup_def
  by (intro conjI Deploy_two Cleanup_runs)

text \<open>
  On a cluster that is the list of its objects. A \<open>Deploy\<close> of the attacher whose second
  reconciliation fails returns the error and the service is still there; a \<open>Deploy\<close> of
  the provisioner whose first reconciliation fails has called nothing else. A \<open>Cleanup\<close>
  of the attacher whose service cleanup fails has, under every schedule, removed the
  deployment and logged the warning; the three runs differ in the order of the events.
  A \<open>Cleanup\<close> of the provisioner whose two cleanups succeed has removed both objects, in
  one order or the other.
\<close>

theorem deploy_fail_fast_cleanup_best_effort_witness:
  "AttacherDeployment_Deploy
      (object_cluster [(deploy ''dep'' ''deployment'' deploymentCreateFunc deploymentDeleteFunc
                          deploymentGetFunc, ErrorString ''quota'')])
      \<lparr>AttacherDeployment.service = ''svc'', AttacherDeployment.deployment = ''dep''\<rparr>
      \<lparr>cluster = [], trace = []\<rparr>
     = (Some (ErrorString ''quota''),
        \<lparr>cluster = [''svc''],
         trace = [Call (deploy ''svc'' ''service'' serviceCreateFunc serviceDeleteFunc serviceGetFunc) None,
                  Call (deploy ''dep'' ''deployment'' deploymentCreateFunc deploymentDeleteFunc
                          deploymentGetFunc) (Some (ErrorString ''quota''))]\<rparr>)
   \<and> ProvisionerDeployment_Deploy
      (object_cluster [(deploy ''svc'' ''service'' serviceCreateFunc serviceDeleteFunc
                          serviceGetFunc, ErrorString ''denied'')])
      \<lparr>ProvisionerDeployment.service = ''svc'', ProvisionerDeployment.deployment = ''dep''\<rparr>
      \<lparr>cluster = [], trace = []\<rparr>
     = (Some (ErrorString ''denied''),
        \<lparr>cluster = [],
         trace = [Call (deploy ''svc'' ''service'' serviceCreateFunc serviceDeleteFunc serviceGetFunc)
                    (Some (ErrorString ''denied''))]\<rparr>)
   \<and> range (\<lambda>schedule. AttacherDeployment_Cleanup
        (object_cluster [(cleanup ''svc'' ''service'' serviceDeleteFunc serviceGetFunc,
                          ErrorString ''timeout'')])
        schedule
        \<lparr>AttacherDeployment.service = ''svc'', AttacherDeployment.deployment = ''dep''\<rparr>
        \<lparr>cluster = [''svc'', ''dep''], trace = []\<rparr>)
     = {\<lparr>cluster = [''svc''],
         trace = [Call (cleanup ''svc'' ''service'' serviceDeleteFunc serviceGetFunc)
                    (Some (ErrorString ''timeout'')),
                  Log WarnLevel ''Failed to cleanup service in attacher deployment: timeout'',
                  Call (cleanup ''dep'' ''deployment'' deploymentDeleteFunc deploymentGetFunc) None]\<rparr>,
        \<lparr>cluster = [''svc''],
         trace = [Call (cleanup ''svc'' ''service'' serviceDeleteFunc serviceGetFunc)
                    (Some (ErrorString ''timeout'')),
                  Call (cleanup ''dep'' ''deployment'' deploymentDeleteFunc deploymentGetFunc) None,
                  Log WarnLevel ''Failed to cleanup service in attacher deployment: timeout'']\<rparr>,
        \<lparr>cluster = [''svc''],
         trace = [Call (cleanup ''dep'' ''deployment'' deploymentDeleteFunc deploymentGetFunc) None,
                  Call (cleanup ''svc'' ''service'' serviceDeleteFunc serviceGetFunc)
                    (Some (ErrorString ''timeout'')),
                  Log WarnLevel ''Failed to cleanup service in attacher deployment: timeout'']\<rparr>}
   \<and> range (\<lambda>schedule. ProvisionerDeployment_Cleanup (object_cluster []) schedule
        \<lparr>ProvisionerDeployment.service = ''svc'', ProvisionerDeployment.deployment = ''dep''\<rparr>
        \<lparr>cluster = [''svc'', ''dep''], trace = []\<rparr>)
     = {\<lparr>cluster = [],
         trace = [Call (cleanup ''svc'' ''service'' serviceDeleteFunc serviceGetFunc) None,
                  Call (cleanup ''dep'' ''deployment'' deploymentDeleteFunc deploymentGetFunc) None]\<rparr>,
        \<lparr>cluster = [],
         trace = [Call (cleanup ''dep'' ''deployment'' deploymentDeleteFunc deploymentGetFunc) None,
                  Call (cleanup ''svc'' ''service'' serviceDeleteFunc serviceGetFunc) None]\<rparr>}"
proof -
  let ?a = "\<lparr>AttacherDeployment.service = ''svc'', AttacherDeployment.deployment = ''dep''\<rparr>"
  let ?p = "\<lparr>ProvisionerDeployment.service = ''svc'', ProvisionerDeployment.deployment = ''dep''\<rparr>"
  let ?quota = "object_cluster [(deploy ''dep'' ''deployment'' deploymentCreateFunc deploymentDeleteFunc
                          deploymentGetFunc, ErrorString ''quota'')]"
  let ?denied = "object_cluster [(deploy ''svc'' ''service'' serviceCreateFunc serviceDeleteFunc
                          serviceGetFunc, ErrorString ''denied'')]"
  let ?timeout = "object_cluster [(cleanup ''svc'' ''service'' serviceDeleteFunc serviceGetFunc,
                          ErrorString ''timeout'')]"
  let ?none = "object_cluster [] :: string csi_call \<Rightarrow> string list \<Rightarrow> error option \<times> string list"
  let ?empty = "\<lparr>cluster = [], trace = []\<rparr> :: (string list, string csi_call) world"
  let ?both = "\<lparr>cluster = [''svc'', ''dep''], trace = []\<rparr> :: (string list, string csi_call) world"
  note attacher_deploy = deploy_fail_fast_cleanup_best_effort
      [where run = ?quota and a = ?a and w = ?empty, THEN conjunct1]
  note provisioner_deploy = deploy_fail_fast_cleanup_best_effort
      [where run = ?denied and p = ?p and w = ?empty, THEN conjunct2, THEN conjunct1]
  note attacher_cleanup = deploy_fail_fast_cleanup_best_effort
      [where run = ?timeout and a = ?a and w = ?both, THEN conjunct2, THEN conjunct2, THEN conjunct1]
  note provisioner_cleanup = deploy_fail_fast_cleanup_best_effort
      [where run = ?none and p = ?p and w = ?both, THEN conjunct2, THEN conjunct2, THEN conjunct2]
  have a: "AttacherDeployment_Deploy ?quota ?a ?empty
     = (Some (ErrorString ''quota''),
        \<lparr>cluster = [''svc''],
         trace = [Call (deploy ''svc'' ''service'' serviceCreateFunc serviceDeleteFunc serviceGetFunc) None,
                  Call (deploy ''dep'' ''deployment'' deploymentCreateFunc deploymentDeleteFunc
                          deploymentGetFunc) (Some (ErrorString ''quota''))]\<rparr>)"
    unfolding attacher_deploy by (simp add: object_cluster_def)
  have b: "ProvisionerDeployment_Deploy ?denied ?p ?empty
     = (Some (ErrorString ''denied''),
        \<lparr>cluster = [],
         trace = [Call (deploy ''svc'' ''service'' serviceCreateFunc serviceDeleteFunc serviceGetFunc)
                    (Some (ErrorString ''denied''))]\<rparr>)"
    unfolding provisioner_deploy by (simp add: object_cluster_def)
  have c: "range (\<lambda>schedule. AttacherDeployment_Cleanup ?timeout schedule ?a ?both)
     = {\<lparr>cluster = [''svc''],
         trace = [Call (cleanup ''svc'' ''service'' serviceDeleteFunc serviceGetFunc)
                    (Some (ErrorString ''timeout'')),
                  Log WarnLevel ''Failed to cleanup service in attacher deployment: timeout'',
                  Call (cleanup ''dep'' ''deployment'' deploymentDeleteFunc deploymentGetFunc) None]\<rparr>,
        \<lparr>cluster = [''svc''],
         trace = [Call (cleanup ''svc'' ''service'' serviceDeleteFunc serviceGetFunc)
                    (Some (ErrorString ''timeout'')),
                  Call (cleanup ''dep'' ''deployment'' deploymentDeleteFunc deploymentGetFunc) None,
                  Log WarnLevel ''Failed to cleanup service in attacher deployment: timeout'']\<rparr>,
        \<lparr>cluster = [''svc''],
         trace = [Call (cleanup ''dep'' ''deployment'' deploymentDeleteFunc deploymentGetFunc) None,
                  Call (cleanup ''svc'' ''service'' serviceDeleteFunc serviceGetFunc)
                    (Some (ErrorString ''timeout'')),
                  Log WarnLevel ''Failed to cleanup service in attacher deployment: timeout'']\<rparr>}"
    unfolding attacher_cleanup
    by (simp add: cleanup_runs_def object_cluster_def task_events_def task_warning_def insert_commute)
  have d: "range (\<lambda>schedule. ProvisionerDeployment_Cleanup ?none schedule ?p ?both)
     = {\<lparr>cluster = [],
         trace = [Call (cleanup ''svc'' ''service'' serviceDeleteFunc serviceGetFunc) None,
                  Call (cleanup ''dep'' ''deployment'' deploymentDeleteFunc deploymentGetFunc) None]\<rparr>,
        \<lparr>cluster = [],
         trace = [Call (cleanup ''dep'' ''deployment'' deploymentDeleteFunc deploymentGetFunc) None,
                  Call (cleanup ''svc'' ''service'' serviceDeleteFunc serviceGetFunc) None]\<rparr>}"
    unfolding provisioner_cleanup
    by (simp add: cleanup_runs_def object_cluster_def task_events_def task_warning_def insert_commute)
  from a b c d show ?thesis by (intro conjI)
qed

section \<open>The marker only moves to the current tag\<close>

lemma leader_call_writes_current:
  assumes "CurrentCRDAPIVersion types = CRDAPIVersionV1beta2 types"
    and "leader_call types namespace c"
  shows "writes_current types (Call c r)"
  using assms
  by (auto simp add: leader_call_def version_call_def spec_chain_def writes_current_def)

lemma OnStartedLeading_writes_current:
  assumes "CurrentCRDAPIVersion types = CRDAPIVersionV1beta2 types"
  shows "list_all (writes_current types) (trace (snd (OnStartedLeading types ext namespace (init s))))"
proof -
  have "emits (writes_current types) (OnStartedLeading types ext namespace)"
    by (rule emits_OnStartedLeading)
       (simp add: writes_current_def, rule leader_call_writes_current [OF assms])
  from emitsD [OF this, of "init s"] show ?thesis by (auto simp add: init_def)
qed

lemma marker_store_invoke:
  assumes "marker_store ext types marker"
  shows "marker (snd (invoke ext c s)) = marker s
     \<or> (\<exists>namespace st. (c = Settings_Create namespace st \<or> c = Settings_Update namespace st)
           \<and> marker (snd (invoke ext c s)) = Some (Value st))"
  using assms unfolding marker_store_def by blast

lemma marker_store_probe:
  assumes "marker_store ext types marker"
  shows "marker (snd (can_upgrade ext namespace s)) = marker s"
  using assms unfolding marker_store_def by blast

lemma marker_switch:
  assumes store: "marker_store ext types marker"
    and current: "CurrentCRDAPIVersion types = CRDAPIVersionV1beta2 types"
    and read: "(marker (cluster w) = None \<and> v = '''') \<or> marker (cluster w) = Some v"
  shows "marker (cluster (snd (doAPIVersionUpgrade_switch types ext namespace st v w))) = marker (cluster w)
     \<or> (marker (cluster (snd (doAPIVersionUpgrade_switch types ext namespace st v w)))
           = Some (CurrentCRDAPIVersion types)
         \<and> marker (cluster w) \<in> {None, Some '''', Some (CRDAPIVersionV1beta1 types)})"
proof -
  consider (unrecognized) "v \<noteq> ''''" "v \<noteq> CRDAPIVersionV1beta1 types" "v \<noteq> CRDAPIVersionV1beta2 types"
    | (current) "\<not> (v \<noteq> '''' \<and> v \<noteq> CRDAPIVersionV1beta1 types \<and> v \<noteq> CRDAPIVersionV1beta2 types)"
        "v = CurrentCRDAPIVersion types"
    | (fresh) "v \<noteq> CurrentCRDAPIVersion types" "v = ''''"
    | (legacy) "v \<noteq> CurrentCRDAPIVersion types" "v \<noteq> ''''" "v = CRDAPIVersionV1beta1 types"
    | (other) "\<not> (v \<noteq> '''' \<and> v \<noteq> CRDAPIVersionV1beta1 types \<and> v \<noteq> CRDAPIVersionV1beta2 types)"
        "v \<noteq> CurrentCRDAPIVersion types" "v \<noteq> ''''" "v \<noteq> CRDAPIVersionV1beta1 types"
    by blast
  then show ?thesis
  proof cases
    case unrecognized
    then show ?thesis by (simp add: doAPIVersionUpgrade_switch_def)
  next
    case current
    then show ?thesis by (simp add: doAPIVersionUpgrade_switch_def logrus_def)
  next
    case fresh
    let ?create = "Settings_Create namespace
        \<lparr>Name = SettingNameCRDAPIVersion types, Value = CurrentCRDAPIVersion types\<rparr>"
    obtain p s1 where probe: "can_upgrade ext namespace (cluster w) = (p, s1)"
      by (cases "can_upgrade ext namespace (cluster w)")
    obtain r s2 where create: "invoke ext ?create s1 = (r, s2)"
      by (cases "invoke ext ?create s1")
    from marker_store_probe [OF store, of namespace "cluster w"] probe
    have m1: "marker s1 = marker (cluster w)" by simp
    from marker_store_invoke [OF store, of ?create s1] create m1
    have m2: "marker s2 = marker (cluster w) \<or> marker s2 = Some (CurrentCRDAPIVersion types)"
      by auto
    from read fresh have empty: "marker (cluster w) \<in> {None, Some '''', Some (CRDAPIVersionV1beta1 types)}"
      by auto
    from fresh have "cluster (snd (doAPIVersionUpgrade_switch types ext namespace st v w)) = s1
        \<or> cluster (snd (doAPIVersionUpgrade_switch types ext namespace st v w)) = s2"
      using probe create
      by (auto simp add: doAPIVersionUpgrade_switch_def exec_CanUpgrade_def exec_def perform_def logrus_def
          split: sum.splits option.splits)
    with m1 m2 empty show ?thesis by auto
  next
    case legacy
    let ?convert = "v1beta1_UpgradeCRFromV1beta1ToV1beta2 namespace"
    let ?update = "Settings_Update namespace (st\<lparr>Value := CRDAPIVersionV1beta2 types\<rparr>)"
    obtain r1 s1 where convert: "invoke ext ?convert (cluster w) = (r1, s1)"
      by (cases "invoke ext ?convert (cluster w)")
    obtain r2 s2 where update: "invoke ext ?update s1 = (r2, s2)"
      by (cases "invoke ext ?update s1")
    from marker_store_invoke [OF store, of ?convert "cluster w"] convert
    have m1: "marker s1 = marker (cluster w)" by auto
    from marker_store_invoke [OF store, of ?update s1] update m1 current
    have m2: "marker s2 = marker (cluster w) \<or> marker s2 = Some (CurrentCRDAPIVersion types)"
      by auto
    from read legacy have old: "marker (cluster w) \<in> {None, Some '''', Some (CRDAPIVersionV1beta1 types)}"
      by auto
    from legacy have "cluster (snd (doAPIVersionUpgrade_switch types ext namespace st v w)) = s1
        \<or> cluster (snd (doAPIVersionUpgrade_switch types ext namespace st v w)) = s2"
      using convert update
      by (auto simp add: doAPIVersionUpgrade_switch_def exec_def perform_def logrus_def Let_def
          split: option.splits)
    with m1 m2 old show ?thesis by auto
  next
    case other
    then show ?thesis by (simp add: doAPIVersionUpgrade_switch_def)
  qed
qed

lemma marker_version:
  assumes store: "marker_store ext types marker"
    and current: "CurrentCRDAPIVersion types = CRDAPIVersionV1beta2 types"
  shows "marker (cluster (snd (doAPIVersionUpgrade types ext namespace w))) = marker (cluster w)
     \<or> (marker (cluster (snd (doAPIVersionUpgrade types ext namespace w)))
           = Some (CurrentCRDAPIVersion types)
         \<and> marker (cluster w) \<in> {None, Some '''', Some (CRDAPIVersionV1beta1 types)})"
proof -
  let ?get = "Call (Settings_Get namespace (SettingNameCRDAPIVersion types))
      (err_of (get_setting ext namespace (SettingNameCRDAPIVersion types) (cluster w)))"
  let ?w1 = "w\<lparr>trace := trace w @ [?get]\<rparr>"
  have same: "cluster ?w1 = cluster w" by simp
  show ?thesis
  proof (cases "get_setting ext namespace (SettingNameCRDAPIVersion types) (cluster w)")
    case (Inl e)
    show ?thesis
    proof (cases "IsNotFound e")
      case True
      with Inl store have "marker (cluster w) = None" unfolding marker_store_def by blast
      then have read: "(marker (cluster ?w1) = None \<and> '''' = '''') \<or> marker (cluster ?w1) = Some ''''"
        by simp
      from True Inl have eq: "snd (doAPIVersionUpgrade types ext namespace w) =
          snd (doAPIVersionUpgrade_switch types ext namespace \<lparr>Name = '''', Value = ''''\<rparr> '''' ?w1)"
        by (simp add: doAPIVersionUpgrade_def exec_Get_def Let_def case_prod_unfold)
      from marker_switch [OF store current read, of namespace "\<lparr>Name = '''', Value = ''''\<rparr>"]
      show ?thesis unfolding eq same .
    next
      case False
      with Inl show ?thesis by (simp add: doAPIVersionUpgrade_def exec_Get_def Let_def)
    qed
  next
    case (Inr st)
    with store have "marker (cluster w) = Some (Value st)" unfolding marker_store_def by blast
    then have read: "(marker (cluster ?w1) = None \<and> Value st = '''') \<or> marker (cluster ?w1) = Some (Value st)"
      by simp
    from Inr have eq: "snd (doAPIVersionUpgrade types ext namespace w) =
          snd (doAPIVersionUpgrade_switch types ext namespace st (Value st) ?w1)"
      by (simp add: doAPIVersionUpgrade_def exec_Get_def Let_def case_prod_unfold)
    from marker_switch [OF store current read, of namespace st]
    show ?thesis unfolding eq same .
  qed
qed

lemma marker_steps:
  assumes store: "marker_store ext types marker"
    and steps: "\<forall>step \<in> set steps. \<forall>namespace st.
        snd step \<noteq> Settings_Create namespace st \<and> snd step \<noteq> Settings_Update namespace st"
  shows "marker (cluster (snd (spec_run_steps ext steps w))) = marker (cluster w)"
  using steps
proof (induction steps arbitrary: w)
  case Nil
  show ?case by simp
next
  case (Cons step steps)
  obtain phase c where step: "step = (phase, c)" by (cases step)
  obtain r s1 where inv: "invoke ext c (cluster w) = (r, s1)" by (cases "invoke ext c (cluster w)")
  from Cons.prems step have "\<forall>namespace st. c \<noteq> Settings_Create namespace st \<and> c \<noteq> Settings_Update namespace st"
    by simp
  with marker_store_invoke [OF store, of c "cluster w"] inv have m1: "marker s1 = marker (cluster w)"
    by auto
  show ?case
  proof (cases r)
    case None
    let ?w1 = "\<lparr>cluster = s1, trace = trace w @ [Call c None]\<rparr>"
    from Cons.prems have "\<forall>step \<in> set steps. \<forall>namespace st.
        snd step \<noteq> Settings_Create namespace st \<and> snd step \<noteq> Settings_Update namespace st"
      by simp
    from Cons.IH [OF this, of ?w1] m1 None inv step show ?thesis
      by (simp add: exec_def perform_def)
  next
    case (Some e)
    with inv step m1 show ?thesis by (simp add: exec_def perform_def)
  qed
qed

lemma marker_tenure:
  assumes store: "marker_store ext types marker"
    and current: "CurrentCRDAPIVersion types = CRDAPIVersionV1beta2 types"
  shows "marker (cluster (snd (OnStartedLeading types ext namespace w))) = marker (cluster w)
     \<or> (marker (cluster (snd (OnStartedLeading types ext namespace w)))
           = Some (CurrentCRDAPIVersion types)
         \<and> marker (cluster w) \<in> {None, Some '''', Some (CRDAPIVersionV1beta1 types)})"
proof -
  let ?w0 = "logrus InfoLevel ''Start upgrading'' w"
  obtain r w1 where version: "doAPIVersionUpgrade types ext namespace ?w0 = (r, w1)"
    by (cases "doAPIVersionUpgrade types ext namespace ?w0")
  from marker_version [OF store current, of namespace ?w0] version
  have v: "marker (cluster w1) = marker (cluster w)
     \<or> (marker (cluster w1) = Some (CurrentCRDAPIVersion types)
         \<and> marker (cluster w) \<in> {None, Some '''', Some (CRDAPIVersionV1beta1 types)})"
    by (simp add: logrus_def)
  show ?thesis
  proof (cases r)
    case (Some e)
    with version OnStartedLeading_version_failed [of types ext namespace w e w1]
    have "cluster (snd (OnStartedLeading types ext namespace w)) = cluster w1"
      by (simp add: logrus_def)
    with v show ?thesis by simp
  next
    case None
    have chain: "\<forall>step \<in> set (spec_chain namespace). \<forall>namespace' st.
        snd step \<noteq> Settings_Create namespace' st \<and> snd step \<noteq> Settings_Update namespace' st"
      by (simp add: spec_chain_def)
    from marker_steps [OF store chain, of w1]
    have c: "marker (cluster (snd (spec_run_steps ext (spec_chain namespace) w1))) = marker (cluster w1)" .
    from None version OnStartedLeading_after_version [of types ext namespace w w1]
    have "cluster (snd (OnStartedLeading types ext namespace w))
        = cluster (snd (spec_run_steps ext (spec_chain namespace) w1))"
      by (simp add: logrus_def split: prod.splits option.splits)
    with c v show ?thesis by simp
  qed
qed

lemma tenures_add:
  "tenures types ext namespace (i + k) s = tenures types ext namespace k (tenures types ext namespace i s)"
  by (induction i arbitrary: s) simp_all

lemma marker_tenures:
  assumes store: "marker_store ext types marker"
    and current: "CurrentCRDAPIVersion types = CRDAPIVersionV1beta2 types"
  shows "marker (tenures types ext namespace n s) = marker s
     \<or> (marker (tenures types ext namespace n s) = Some (CurrentCRDAPIVersion types)
         \<and> marker s \<in> {None, Some '''', Some (CRDAPIVersionV1beta1 types)})"
proof (induction n arbitrary: s)
  case 0
  show ?case by simp
next
  case (Suc n)
  let ?s1 = "cluster (snd (OnStartedLeading types ext namespace (init s)))"
  from marker_tenure [OF store current, of namespace "init s"]
  have one: "marker ?s1 = marker s
     \<or> (marker ?s1 = Some (CurrentCRDAPIVersion types)
         \<and> marker s \<in> {None, Some '''', Some (CRDAPIVersionV1beta1 types)})"
    by (simp add: init_def)
  from Suc [of ?s1]
  have rest: "marker (tenures types ext namespace n ?s1) = marker ?s1
     \<or> (marker (tenures types ext namespace n ?s1) = Some (CurrentCRDAPIVersion types)
         \<and> marker ?s1 \<in> {None, Some '''', Some (CRDAPIVersionV1beta1 types)})" .
  from one rest show ?case by auto
qed

text \<open>
  C6. With the current tag being v1beta2, every create or update of a setting that a
  leader's run calls writes the current tag as the value. So, on a cluster whose marker
  changes only through such writes, the marker after any number of leader's runs is either
  what it was after any earlier number of runs, or it is the current tag and was absent,
  empty or the legacy tag before: the marker only moves to the current tag, and once
  current it stays current.
\<close>

theorem marker_monotonic:
  assumes "CurrentCRDAPIVersion types = CRDAPIVersionV1beta2 types"
    and "marker_store ext types marker"
  shows "list_all (writes_current types) (trace (snd (OnStartedLeading types ext namespace (init s))))
       \<and> (\<forall>i j. i \<le> j \<longrightarrow>
             marker (tenures types ext namespace j s) = marker (tenures types ext namespace i s)
             \<or> (marker (tenures types ext namespace j s) = Some (CurrentCRDAPIVersion types)
                 \<and> marker (tenures types ext namespace i s)
                      \<in> {None, Some '''', Some (CRDAPIVersionV1beta1 types)}))"
proof (intro conjI allI impI)
  show "list_all (writes_current types) (trace (snd (OnStartedLeading types ext namespace (init s))))"
    by (rule OnStartedLeading_writes_current [OF assms(1)])
next
  fix i j :: nat
  assume "i \<le> j"
  then obtain k where "j = i + k" using le_Suc_ex by blast
  with marker_tenures [OF assms(2,1), of namespace k "tenures types ext namespace i s"]
  show "marker (tenures types ext namespace j s) = marker (tenures types ext namespace i s)
             \<or> (marker (tenures types ext namespace j s) = Some (CurrentCRDAPIVersion types)
                 \<and> marker (tenures types ext namespace i s)
                      \<in> {None, Some '''', Some (CRDAPIVersionV1beta1 types)})"
    by (simp add: tenures_add)
qed

text \<open>
  On the small cluster the marker is the value of the one setting it holds. Two leader's
  runs from a marker with the legacy tag: the marker has moved to the current tag.
\<close>

theorem marker_monotonic_witness:
  "CurrentCRDAPIVersion example_types = CRDAPIVersionV1beta2 example_types
   \<and> marker_store (marker_cluster [] (Inr True)) example_types (map_option Value)
   \<and> (0::nat) \<le> 2
   \<and> map_option Value (tenures example_types (marker_cluster [] (Inr True)) ''longhorn-system'' 0
        (Some \<lparr>Name = ''crd-api-version'', Value = ''v1beta1''\<rparr>)) = Some ''v1beta1''
   \<and> map_option Value (tenures example_types (marker_cluster [] (Inr True)) ''longhorn-system'' 2
        (Some \<lparr>Name = ''crd-api-version'', Value = ''v1beta1''\<rparr>)) = Some ''v1beta2''
   \<and> (map_option Value (tenures example_types (marker_cluster [] (Inr True)) ''longhorn-system'' 2
          (Some \<lparr>Name = ''crd-api-version'', Value = ''v1beta1''\<rparr>))
       = map_option Value (tenures example_types (marker_cluster [] (Inr True)) ''longhorn-system'' 0
          (Some \<lparr>Name = ''crd-api-version'', Value = ''v1beta1''\<rparr>))
      \<or> map_option Value (tenures example_types (marker_cluster [] (Inr True)) ''longhorn-system'' 2
          (Some \<lparr>Name = ''crd-api-version'', Value = ''v1beta1''\<rparr>))
         = Some (CurrentCRDAPIVersion example_types)
        \<and> map_option Value (tenures example_types (marker_cluster [] (Inr True)) ''longhorn-system'' 0
          (Some \<lparr>Name = ''crd-api-version'', Value = ''v1beta1''\<rparr>))
           \<in> {None, Some '''', Some (CRDAPIVersionV1beta1 example_types)})"
proof -
  let ?E = "marker_cluster [] (Inr True)"
  let ?L = "Some \<lparr>Name = ''crd-api-version'', Value = ''v1beta1''\<rparr>"
  have current: "CurrentCRDAPIVersion example_types = CRDAPIVersionV1beta2 example_types"
    by (simp add: example_types_def)
  have writes: "map_option Value (snd (invoke ?E c s)) = map_option Value s
          \<or> (\<exists>namespace st. (c = Settings_Create namespace st \<or> c = Settings_Update namespace st)
                \<and> map_option Value (snd (invoke ?E c s)) = Some (Value st))" for c s
    by (cases c; cases s) (simp_all add: marker_cluster_def marker_write_def)
  have store: "marker_store ?E example_types (map_option Value)"
    unfolding marker_store_def
  proof (intro conjI allI impI)
    fix namespace s st
    assume "get_setting ?E namespace (SettingNameCRDAPIVersion example_types) s = Inr st"
    then show "map_option Value s = Some (Value st)"
      by (cases s) (simp_all add: marker_cluster_def)
  next
    fix namespace s e
    assume "get_setting ?E namespace (SettingNameCRDAPIVersion example_types) s = Inl e \<and> IsNotFound e"
    then show "map_option Value s = None"
      by (cases s) (simp_all add: marker_cluster_def)
  next
    fix c s
    show "map_option Value (snd (invoke ?E c s)) = map_option Value s
          \<or> (\<exists>namespace st. (c = Settings_Create namespace st \<or> c = Settings_Update namespace st)
                \<and> map_option Value (snd (invoke ?E c s)) = Some (Value st))"
      by (rule writes)
  next
    fix namespace s
    show "map_option Value (snd (can_upgrade ?E namespace s)) = map_option Value s"
      by (simp add: marker_cluster_def)
  qed
  have le: "(0::nat) \<le> 2" by simp
  have two: "(2::nat) = Suc (Suc 0)" by simp
  have before: "map_option Value (tenures example_types ?E ''longhorn-system'' 0 ?L) = Some ''v1beta1''"
    by simp
  have first: "cluster (snd (OnStartedLeading example_types ?E ''longhorn-system'' (init ?L)))
      = Some \<lparr>Name = ''crd-api-version'', Value = ''v1beta2''\<rparr>"
    by (simp add: run_defs Let_def)
  have second: "cluster (snd (OnStartedLeading example_types ?E ''longhorn-system''
      (init (Some \<lparr>Name = ''crd-api-version'', Value = ''v1beta2''\<rparr>))))
      = Some \<lparr>Name = ''crd-api-version'', Value = ''v1beta2''\<rparr>"
    by (simp add: run_defs Let_def)
  have after: "map_option Value (tenures example_types ?E ''longhorn-system'' 2 ?L) = Some ''v1beta2''"
    unfolding two by (simp add: first second)
  note ordered = marker_monotonic [OF current store, THEN conjunct2, rule_format, OF le,
      of "''longhorn-system''" ?L]
  show ?thesis by (intro conjI current store le before after ordered)
qed

end
